theory Spec2Isabelle
  imports Main "HOL-Library.Sublist" "HOL-Library.Char_ord" "HOL-Library.List_Lexorder"
begin

section \<open>Strings as the code uses them\<close>

text \<open>
  \<open>std::string\<close> is a byte string: \<open>string\<close> (a \<open>char list\<close>). The members of
  \<open>std::string\<close> the code calls are written out: \<open>find\<close> and \<open>rfind\<close> of a character
  return \<open>None\<close> for \<open>npos\<close>; \<open>s.find(p) == 0\<close> is \<open>starts_with s p\<close>.
\<close>

fun find_char :: "char \<Rightarrow> string \<Rightarrow> nat option" where
  "find_char c [] = None"
| "find_char c (x # xs) = (if x = c then Some 0 else map_option Suc (find_char c xs))"

fun rfind_char :: "char \<Rightarrow> string \<Rightarrow> nat option" where
  "rfind_char c [] = None"
| "rfind_char c (x # xs) =
     (case rfind_char c xs of
        Some i \<Rightarrow> Some (Suc i)
      | None \<Rightarrow> (if x = c then Some 0 else None))"

text \<open>\<open>s.substr(pos)\<close> and \<open>s.substr(pos, n)\<close>; every call in the code has \<open>pos \<le> size\<close>.\<close>

definition substr_from :: "string \<Rightarrow> nat \<Rightarrow> string" where
  "substr_from s pos = drop pos s"

definition substr :: "string \<Rightarrow> nat \<Rightarrow> nat \<Rightarrow> string" where
  "substr s pos n = take n (drop pos s)"

fun starts_with :: "string \<Rightarrow> string \<Rightarrow> bool" where
  "starts_with s [] = True"
| "starts_with [] (p # ps) = False"
| "starts_with (c # s) (p # ps) = (c = p \<and> starts_with s ps)"

text \<open>\<open>std::to_string\<close> of an \<open>int\<close>: decimal digits, a minus sign for a negative value.\<close>

fun to_string_nat :: "nat \<Rightarrow> string" where
  "to_string_nat n =
     (if n < 10 then [char_of (48 + n)]
      else to_string_nat (n div 10) @ [char_of (48 + n mod 10)])"

declare to_string_nat.simps [simp del]

definition to_string :: "int \<Rightarrow> string" where
  "to_string i = (if i < 0 then CHR ''-'' # to_string_nat (nat (- i)) else to_string_nat (nat i))"

text \<open>
  \<open>std::stoi(str)\<close> (base 10, through \<open>strtol\<close>): leading white space is skipped, one
  optional sign is read, then the longest run of decimal digits; what follows the digits is
  ignored. No digit raises \<open>std::invalid_argument\<close>, a value outside \<open>int\<close> raises
  \<open>std::out_of_range\<close>; both are \<open>None\<close> here.
\<close>

definition isspace :: "char \<Rightarrow> bool" where
  "isspace c = (of_char c \<in> {32, 9, 10, 11, 12, 13 :: nat})"

definition isdigit :: "char \<Rightarrow> bool" where
  "isdigit c = (48 \<le> (of_char c :: nat) \<and> (of_char c :: nat) \<le> 57)"

definition digits_value :: "string \<Rightarrow> nat" where
  "digits_value ds = foldl (\<lambda>acc c. acc * 10 + (of_char c - 48)) 0 ds"

definition INT_MAX :: int where
  "INT_MAX = 2147483647"

definition INT_MIN :: int where
  "INT_MIN = - 2147483648"

definition stoi :: "string \<Rightarrow> int option" where
  "stoi str =
     (let s1 = dropWhile isspace str;
          neg = (case s1 of [] \<Rightarrow> False | c # _ \<Rightarrow> c = CHR ''-'');
          s2 = (case s1 of [] \<Rightarrow> [] | c # r \<Rightarrow> if c = CHR ''-'' \<or> c = CHR ''+'' then r else s1);
          ds = takeWhile isdigit s2
      in if ds = [] then None
         else let v = (if neg then - int (digits_value ds) else int (digits_value ds))
              in if v < INT_MIN \<or> INT_MAX < v then None else Some v)"

section \<open>Errors and results\<close>

text \<open>
  \<open>ErrClosed\<close>, \<open>ErrTimeout\<close> and \<open>ErrInvalidAddr\<close> are the three global error objects of
  net.cpp; \<open>New msg\<close> is a fresh \<open>gocxx::errors::New(msg)\<close>. A \<open>Result<T>\<close> is the pair of
  its \<open>value\<close> and its \<open>err\<close>, \<open>None\<close> for the null error; \<open>Result<void>\<close> is the error alone.
\<close>

datatype Error = ErrClosed | ErrTimeout | ErrInvalidAddr | New string

type_synonym 'a Result = "'a \<times> Error option"

type_synonym Result_void = "Error option"

text \<open>The \<open>errno\<close> values \<open>socketErrorToError\<close> switches on (POSIX branch, Linux numbers).\<close>

definition EPIPE :: int where "EPIPE = 32"
definition EADDRINUSE :: int where "EADDRINUSE = 98"
definition EADDRNOTAVAIL :: int where "EADDRNOTAVAIL = 99"
definition ECONNRESET :: int where "ECONNRESET = 104"
definition ENOTCONN :: int where "ENOTCONN = 107"
definition ETIMEDOUT :: int where "ETIMEDOUT = 110"

text \<open>os.cpp, the TCP copy; \<open>strerror\<close> is the C library's table, a parameter.\<close>

definition socketErrorToError :: "(int \<Rightarrow> string) \<Rightarrow> int \<Rightarrow> Error" where
  "socketErrorToError strerror err_code =
     (if err_code = ETIMEDOUT then ErrTimeout
      else if err_code = ECONNRESET \<or> err_code = ENOTCONN \<or> err_code = EPIPE then ErrClosed
      else if err_code = EADDRINUSE then New ''address already in use''
      else if err_code = EADDRNOTAVAIL then New ''cannot assign requested address''
      else New (''socket error: '' @ strerror err_code))"

text \<open>net.cpp, the UDP copy: no \<open>EPIPE\<close> and no bind errors.\<close>

definition socketErrorToError_udp :: "(int \<Rightarrow> string) \<Rightarrow> int \<Rightarrow> Error" where
  "socketErrorToError_udp strerror err_code =
     (if err_code = ETIMEDOUT then ErrTimeout
      else if err_code = ECONNRESET \<or> err_code = ENOTCONN then ErrClosed
      else New (''socket error: '' @ strerror err_code))"

section \<open>Addresses\<close>

text \<open>
  The \<open>Addr\<close> interface with its two implementations; \<open>Network\<close> and \<open>String\<close> are the
  virtual members.
\<close>

datatype Addr = TCPAddr (ip: string) (port: int) | UDPAddr (ip: string) (port: int)

fun Network :: "Addr \<Rightarrow> string" where
  "Network (TCPAddr i p) = ''tcp''"
| "Network (UDPAddr i p) = ''udp''"

fun String :: "Addr \<Rightarrow> string" where
  "String (TCPAddr i p) = i @ '':'' @ to_string p"
| "String (UDPAddr i p) = i @ '':'' @ to_string p"

section \<open>The operating system and the TLS library\<close>

text \<open>
  Every call the code makes into the operating system or into OpenSSL is appended to a
  trace, in call order; what the call returns is an argument of the modelled operation
  (\<open>ret\<close> the return value, \<open>errno\<close> the error code read by \<open>SOCKET_ERROR_CODE\<close>), so a
  theorem about an operation holds for every answer of the environment. Buffers passed to
  a send are the bytes; a receive buffer is its size.
\<close>

datatype how = SHUT_RD | SHUT_WR

datatype verify_mode = SSL_VERIFY_NONE | SSL_VERIFY_PEER

datatype call =
    sys_recv int nat
  | sys_send int string
  | sys_close int
  | sys_shutdown int how
  | sys_recvfrom int nat
  | sys_sendto int string string int
  | SSL_read nat nat
  | SSL_write nat string
  | SSL_shutdown nat
  | SSL_free nat
  | SSL_CTX_new
  | SSL_CTX_set_verify nat verify_mode
  | SSL_CTX_load_verify_locations nat string
  | LoadSystemCACerts nat
  | SSL_CTX_use_certificate_file nat string
  | SSL_CTX_use_PrivateKey_file nat string
  | SSL_CTX_free nat
  | SSL_new nat
  | SSL_set_tlsext_host_name nat string
  | SSL_set1_host nat string
  | SSL_set_fd nat int
  | SSL_connect nat

type_synonym time_point = int

definition time_point_max :: time_point where
  "time_point_max = 9223372036854775807"

section \<open>TCP connections and listeners (os.cpp)\<close>

record TCPConn =
  socket_fd :: int
  local_addr :: "Addr option"
  remote_addr :: "Addr option"
  closed :: bool
  read_deadline :: time_point
  write_deadline :: time_point

definition TCPConn_new :: "int \<Rightarrow> Addr option \<Rightarrow> Addr option \<Rightarrow> TCPConn" where
  "TCPConn_new fd local remote =
     \<lparr>socket_fd = fd, local_addr = local, remote_addr = remote, closed = False,
      read_deadline = time_point_max, write_deadline = time_point_max\<rparr>"

definition TCPConn_Read ::
  "(int \<Rightarrow> string) \<Rightarrow> 'a TCPConn_scheme \<Rightarrow> call list \<Rightarrow> nat \<Rightarrow> int \<Rightarrow> int
     \<Rightarrow> nat Result \<times> 'a TCPConn_scheme \<times> call list" where
  "TCPConn_Read strerror c tr sz ret errno =
     (if TCPConn.closed c then ((0, Some ErrClosed), c, tr)
      else let tr' = tr @ [sys_recv (TCPConn.socket_fd c) sz]
           in if ret < 0 then ((0, Some (socketErrorToError strerror errno)), c, tr')
              else if ret = 0 then ((0, Some ErrClosed), c, tr')
              else ((nat ret, None), c, tr'))"

definition TCPConn_Write ::
  "(int \<Rightarrow> string) \<Rightarrow> 'a TCPConn_scheme \<Rightarrow> call list \<Rightarrow> string \<Rightarrow> int \<Rightarrow> int
     \<Rightarrow> nat Result \<times> 'a TCPConn_scheme \<times> call list" where
  "TCPConn_Write strerror c tr buffer ret errno =
     (if TCPConn.closed c then ((0, Some ErrClosed), c, tr)
      else let tr' = tr @ [sys_send (TCPConn.socket_fd c) buffer]
           in if ret < 0 then ((0, Some (socketErrorToError strerror errno)), c, tr')
              else ((nat ret, None), c, tr'))"

definition TCPConn_close :: "'a TCPConn_scheme \<Rightarrow> call list \<Rightarrow> 'a TCPConn_scheme \<times> call list" where
  "TCPConn_close c tr =
     (if \<not> TCPConn.closed c
      then (c\<lparr>TCPConn.closed := True\<rparr>, tr @ [sys_close (TCPConn.socket_fd c)])
      else (c, tr))"

text \<open>The destructor \<open>~TCPConn\<close>.\<close>

definition TCPConn_dtor :: "'a TCPConn_scheme \<Rightarrow> call list \<Rightarrow> 'a TCPConn_scheme \<times> call list" where
  "TCPConn_dtor c tr = (if \<not> TCPConn.closed c then TCPConn_close c tr else (c, tr))"

definition TCPConn_SetReadDeadline ::
  "'a TCPConn_scheme \<Rightarrow> time_point \<Rightarrow> Result_void \<times> 'a TCPConn_scheme" where
  "TCPConn_SetReadDeadline c deadline = (None, c\<lparr>TCPConn.read_deadline := deadline\<rparr>)"

definition TCPConn_SetWriteDeadline ::
  "'a TCPConn_scheme \<Rightarrow> time_point \<Rightarrow> Result_void \<times> 'a TCPConn_scheme" where
  "TCPConn_SetWriteDeadline c deadline = (None, c\<lparr>TCPConn.write_deadline := deadline\<rparr>)"

definition TCPConn_SetDeadline ::
  "'a TCPConn_scheme \<Rightarrow> time_point \<Rightarrow> Result_void \<times> 'a TCPConn_scheme" where
  "TCPConn_SetDeadline c deadline =
     (None, c\<lparr>TCPConn.read_deadline := deadline, TCPConn.write_deadline := deadline\<rparr>)"

definition TCPConn_CloseRead ::
  "(int \<Rightarrow> string) \<Rightarrow> 'a TCPConn_scheme \<Rightarrow> call list \<Rightarrow> int \<Rightarrow> int
     \<Rightarrow> Result_void \<times> 'a TCPConn_scheme \<times> call list" where
  "TCPConn_CloseRead strerror c tr ret errno =
     (if TCPConn.closed c then (Some ErrClosed, c, tr)
      else let tr' = tr @ [sys_shutdown (TCPConn.socket_fd c) SHUT_RD]
           in if ret \<noteq> 0 then (Some (socketErrorToError strerror errno), c, tr')
              else (None, c, tr'))"

definition TCPConn_CloseWrite ::
  "(int \<Rightarrow> string) \<Rightarrow> 'a TCPConn_scheme \<Rightarrow> call list \<Rightarrow> int \<Rightarrow> int
     \<Rightarrow> Result_void \<times> 'a TCPConn_scheme \<times> call list" where
  "TCPConn_CloseWrite strerror c tr ret errno =
     (if TCPConn.closed c then (Some ErrClosed, c, tr)
      else let tr' = tr @ [sys_shutdown (TCPConn.socket_fd c) SHUT_WR]
           in if ret \<noteq> 0 then (Some (socketErrorToError strerror errno), c, tr')
              else (None, c, tr'))"

record TCPListener =
  socket_fd :: int
  local_addr :: "Addr option"
  closed :: bool

definition TCPListener_new :: "int \<Rightarrow> Addr option \<Rightarrow> TCPListener" where
  "TCPListener_new fd local = \<lparr>socket_fd = fd, local_addr = local, closed = False\<rparr>"

definition TCPListener_Close ::
  "'a TCPListener_scheme \<Rightarrow> call list \<Rightarrow> Result_void \<times> 'a TCPListener_scheme \<times> call list" where
  "TCPListener_Close l tr =
     (if TCPListener.closed l then (Some ErrClosed, l, tr)
      else (None, l\<lparr>TCPListener.closed := True\<rparr>, tr @ [sys_close (TCPListener.socket_fd l)]))"

text \<open>The destructor \<open>~TCPListener\<close>; the result of \<open>Close\<close> is dropped.\<close>

definition TCPListener_dtor :: "'a TCPListener_scheme \<Rightarrow> call list \<Rightarrow> 'a TCPListener_scheme \<times> call list" where
  "TCPListener_dtor l tr = (if \<not> TCPListener.closed l then snd (TCPListener_Close l tr) else (l, tr))"

section \<open>UDP connections (net.cpp)\<close>

record UDPConn =
  socket_fd :: int
  local_addr :: "Addr option"
  closed :: bool
  read_deadline :: time_point
  write_deadline :: time_point

definition UDPConn_new :: "int \<Rightarrow> Addr option \<Rightarrow> UDPConn" where
  "UDPConn_new fd local =
     \<lparr>socket_fd = fd, local_addr = local, closed = False,
      read_deadline = time_point_max, write_deadline = time_point_max\<rparr>"

text \<open>
  \<open>ReadFrom\<close> has the out-parameter \<open>addr\<close>: it is returned next to the result, and is the
  caller's value wherever the code does not assign it. \<open>sender_ip\<close> and \<open>sender_port\<close> are
  what \<open>recvfrom\<close> stored, after \<open>inet_ntop\<close> and \<open>ntohs\<close>.
\<close>

definition UDPConn_ReadFrom ::
  "(int \<Rightarrow> string) \<Rightarrow> UDPConn \<Rightarrow> call list \<Rightarrow> nat \<Rightarrow> Addr option \<Rightarrow> int \<Rightarrow> int \<Rightarrow> string \<Rightarrow> int
     \<Rightarrow> nat Result \<times> Addr option \<times> UDPConn \<times> call list" where
  "UDPConn_ReadFrom strerror c tr sz addr ret errno sender_ip sender_port =
     (if UDPConn.closed c then ((0, Some ErrClosed), addr, c, tr)
      else let tr' = tr @ [sys_recvfrom (UDPConn.socket_fd c) sz]
           in if ret < 0 then ((0, Some (socketErrorToError_udp strerror errno)), addr, c, tr')
              else ((nat ret, None), Some (UDPAddr sender_ip sender_port), c, tr'))"

text \<open>\<open>WriteToUDP\<close> takes a \<open>UDPAddr\<close>; it reads the two fields of the address.\<close>

definition UDPConn_WriteToUDP ::
  "(int \<Rightarrow> string) \<Rightarrow> UDPConn \<Rightarrow> call list \<Rightarrow> string \<Rightarrow> Addr \<Rightarrow> int \<Rightarrow> int
     \<Rightarrow> nat Result \<times> UDPConn \<times> call list" where
  "UDPConn_WriteToUDP strerror c tr buffer addr ret errno =
     (if UDPConn.closed c then ((0, Some ErrClosed), c, tr)
      else let tr' = tr @ [sys_sendto (UDPConn.socket_fd c) buffer (ip addr) (port addr)]
           in if ret < 0 then ((0, Some (socketErrorToError_udp strerror errno)), c, tr')
              else ((nat ret, None), c, tr'))"

text \<open>
  \<open>WriteTo\<close> takes any \<open>shared_ptr<Addr>\<close>: \<open>None\<close> is the null pointer, and the
  \<open>dynamic_pointer_cast\<close> succeeds on a \<open>UDPAddr\<close> only.
\<close>

definition UDPConn_WriteTo ::
  "(int \<Rightarrow> string) \<Rightarrow> UDPConn \<Rightarrow> call list \<Rightarrow> string \<Rightarrow> Addr option \<Rightarrow> int \<Rightarrow> int
     \<Rightarrow> nat Result \<times> UDPConn \<times> call list" where
  "UDPConn_WriteTo strerror c tr buffer addr ret errno =
     (if UDPConn.closed c then ((0, Some ErrClosed), c, tr)
      else case addr of
             Some (UDPAddr i p) \<Rightarrow> UDPConn_WriteToUDP strerror c tr buffer (UDPAddr i p) ret errno
           | _ \<Rightarrow> ((0, Some (New ''address must be UDPAddr'')), c, tr))"

definition UDPConn_Read ::
  "(int \<Rightarrow> string) \<Rightarrow> UDPConn \<Rightarrow> call list \<Rightarrow> nat \<Rightarrow> int \<Rightarrow> int
     \<Rightarrow> nat Result \<times> UDPConn \<times> call list" where
  "UDPConn_Read strerror c tr sz ret errno =
     (if UDPConn.closed c then ((0, Some ErrClosed), c, tr)
      else let tr' = tr @ [sys_recv (UDPConn.socket_fd c) sz]
           in if ret < 0 then ((0, Some (socketErrorToError_udp strerror errno)), c, tr')
              else ((nat ret, None), c, tr'))"

definition UDPConn_Write ::
  "(int \<Rightarrow> string) \<Rightarrow> UDPConn \<Rightarrow> call list \<Rightarrow> string \<Rightarrow> int \<Rightarrow> int
     \<Rightarrow> nat Result \<times> UDPConn \<times> call list" where
  "UDPConn_Write strerror c tr buffer ret errno =
     (if UDPConn.closed c then ((0, Some ErrClosed), c, tr)
      else let tr' = tr @ [sys_send (UDPConn.socket_fd c) buffer]
           in if ret < 0 then ((0, Some (socketErrorToError_udp strerror errno)), c, tr')
              else ((nat ret, None), c, tr'))"

text \<open>\<open>ReadFromUDP\<close>: \<open>result.Ok()\<close> is the null error.\<close>

definition UDPConn_ReadFromUDP ::
  "(int \<Rightarrow> string) \<Rightarrow> UDPConn \<Rightarrow> call list \<Rightarrow> nat \<Rightarrow> Addr option \<Rightarrow> int \<Rightarrow> int \<Rightarrow> string \<Rightarrow> int
     \<Rightarrow> nat Result \<times> Addr option \<times> UDPConn \<times> call list" where
  "UDPConn_ReadFromUDP strerror c tr sz addr ret errno sender_ip sender_port =
     (case UDPConn_ReadFrom strerror c tr sz None ret errno sender_ip sender_port of
        (result, base_addr, c', tr') \<Rightarrow>
          (result, (if snd result = None then base_addr else addr), c', tr'))"

definition UDPConn_close :: "UDPConn \<Rightarrow> call list \<Rightarrow> UDPConn \<times> call list" where
  "UDPConn_close c tr =
     (if \<not> UDPConn.closed c
      then (c\<lparr>UDPConn.closed := True\<rparr>, tr @ [sys_close (UDPConn.socket_fd c)])
      else (c, tr))"

definition UDPConn_dtor :: "UDPConn \<Rightarrow> call list \<Rightarrow> UDPConn \<times> call list" where
  "UDPConn_dtor c tr = (if \<not> UDPConn.closed c then UDPConn_close c tr else (c, tr))"

section \<open>Address resolution (os.cpp, net.cpp)\<close>

text \<open>\<open>parseAddress\<close>, the same in both files; \<open>None\<close> is the return value \<open>false\<close>.\<close>

definition parseAddress :: "string \<Rightarrow> (string \<times> int) option" where
  "parseAddress address =
     (case rfind_char CHR '':'' address of
        None \<Rightarrow> None
      | Some colon_pos \<Rightarrow>
          let host0 = substr address 0 colon_pos;
              port_str = substr_from address (colon_pos + 1);
              host = (if host0 = [] then ''0.0.0.0'' else host0)
          in case stoi port_str of
               None \<Rightarrow> None
             | Some p \<Rightarrow> if p < 0 \<or> 65535 < p then None else Some (host, p))"

text \<open>
  \<open>getaddrinfo\<close> is the resolver of the system, a parameter: for a host it gives the first
  IPv4 result as \<open>inet_ntop\<close> prints it, or \<open>None\<close> when the call fails. A
  \<open>Result<shared_ptr<T>>\<close> has \<open>None\<close> for the null pointer.
\<close>

definition ResolveTCPAddr :: "(string \<Rightarrow> string option) \<Rightarrow> string \<Rightarrow> string \<Rightarrow> Addr option Result" where
  "ResolveTCPAddr getaddrinfo network address =
     (if network \<noteq> ''tcp'' \<and> network \<noteq> ''tcp4'' \<and> network \<noteq> ''tcp6''
      then (None, Some (New (''unsupported network type: '' @ network)))
      else case parseAddress address of
             None \<Rightarrow> (None, Some ErrInvalidAddr)
           | Some (host, p) \<Rightarrow>
               (case getaddrinfo host of
                  None \<Rightarrow> (None, Some (New (''cannot resolve address: '' @ host)))
                | Some ip_str \<Rightarrow> (Some (TCPAddr ip_str p), None)))"

definition ResolveUDPAddr :: "(string \<Rightarrow> string option) \<Rightarrow> string \<Rightarrow> string \<Rightarrow> Addr option Result" where
  "ResolveUDPAddr getaddrinfo network address =
     (if network \<noteq> ''udp'' \<and> network \<noteq> ''udp4'' \<and> network \<noteq> ''udp6''
      then (None, Some (New (''unsupported network type: '' @ network)))
      else case parseAddress address of
             None \<Rightarrow> (None, Some ErrInvalidAddr)
           | Some (host, p) \<Rightarrow>
               (case getaddrinfo host of
                  None \<Rightarrow> (None, Some (New (''cannot resolve address: '' @ host)))
                | Some ip_str \<Rightarrow> (Some (UDPAddr ip_str p), None)))"

section \<open>TLS connections (tls.cpp)\<close>

text \<open>
  A \<open>TLSConn\<close> is a \<open>TCPConn\<close> with the two OpenSSL handles; a handle is a number, \<open>None\<close>
  the null pointer. \<open>SSL_read\<close> and \<open>SSL_write\<close> return \<open>n\<close>, \<open>SSL_get_error\<close> returns
  \<open>err\<close>, and \<open>GetSSLError()\<close> returns \<open>msg\<close>.
\<close>

record TLSConn = TCPConn +
  ssl :: "nat option"
  ctx :: "nat option"

definition SSL_ERROR_WANT_READ :: int where "SSL_ERROR_WANT_READ = 2"
definition SSL_ERROR_WANT_WRITE :: int where "SSL_ERROR_WANT_WRITE = 3"

definition TLSConn_Read ::
  "TLSConn \<Rightarrow> call list \<Rightarrow> nat \<Rightarrow> int \<Rightarrow> int \<Rightarrow> string \<Rightarrow> nat Result \<times> TLSConn \<times> call list" where
  "TLSConn_Read c tr count n err msg =
     (case TLSConn.ssl c of
        None \<Rightarrow> ((0, Some (New ''TLS connection closed'')), c, tr)
      | Some s \<Rightarrow>
          let tr' = tr @ [SSL_read s count]
          in if 0 < n then ((nat n, None), c, tr')
             else if n = 0 then ((0, None), c, tr')
             else if err = SSL_ERROR_WANT_READ \<or> err = SSL_ERROR_WANT_WRITE then ((0, None), c, tr')
             else ((0, Some (New (''SSL_read failed: '' @ msg))), c, tr'))"

definition TLSConn_Write ::
  "TLSConn \<Rightarrow> call list \<Rightarrow> string \<Rightarrow> int \<Rightarrow> int \<Rightarrow> string \<Rightarrow> nat Result \<times> TLSConn \<times> call list" where
  "TLSConn_Write c tr buffer n err msg =
     (case TLSConn.ssl c of
        None \<Rightarrow> ((0, Some (New ''TLS connection closed'')), c, tr)
      | Some s \<Rightarrow>
          let tr' = tr @ [SSL_write s buffer]
          in if 0 < n then ((nat n, None), c, tr')
             else if err = SSL_ERROR_WANT_READ \<or> err = SSL_ERROR_WANT_WRITE
             then ((0, Some (New ''SSL_write would block'')), c, tr')
             else ((0, Some (New (''SSL_write failed: '' @ msg))), c, tr'))"

definition TLSConn_close :: "TLSConn \<Rightarrow> call list \<Rightarrow> TLSConn \<times> call list" where
  "TLSConn_close c tr =
     (case TLSConn.ssl c of
        Some s \<Rightarrow> TCPConn_close (c\<lparr>TLSConn.ssl := None\<rparr>) (tr @ [SSL_shutdown s, SSL_free s])
      | None \<Rightarrow> TCPConn_close c tr)"

record TLSListener = TCPListener +
  ctx :: "nat option"

definition TLSListener_Close ::
  "TLSListener \<Rightarrow> call list \<Rightarrow> Result_void \<times> TLSListener \<times> call list" where
  "TLSListener_Close l tr = TCPListener_Close l tr"

subsection \<open>DialTLS\<close>

record TLSConfig =
  cert_file :: string
  key_file :: string
  ca_file :: string
  insecure_skip_verify :: bool

text \<open>
  What the environment answers during one \<open>DialTLS\<close>: the result of \<open>DialTCP\<close> (an error or
  the open connection), and the return value of each OpenSSL call. The one-time
  \<open>InitializeSSL\<close> is process-wide and not part of the model.
\<close>

record tls_env =
  DialTCP_result :: "Error + TCPConn"
  SSL_CTX_new_ret :: "nat option"
  SSL_CTX_load_verify_locations_ret :: int
  SSL_CTX_use_certificate_file_ret :: int
  SSL_CTX_use_PrivateKey_file_ret :: int
  SSL_new_ret :: "nat option"
  SSL_connect_ret :: int
  GetSSLError :: string

text \<open>
  Lines 217 to 254 of \<open>DialTLS\<close>, the configuration of the context: the extended trace and
  the message of the error the code returns from there, if any. \<open>config\<close> is a pointer,
  \<open>None\<close> when null.
\<close>

definition DialTLS_configure ::
  "tls_env \<Rightarrow> nat \<Rightarrow> TLSConfig option \<Rightarrow> call list \<Rightarrow> call list \<times> string option" where
  "DialTLS_configure env cx config tr =
     (case config of
        None \<Rightarrow> (tr @ [SSL_CTX_set_verify cx SSL_VERIFY_PEER, LoadSystemCACerts cx], None)
      | Some cfg \<Rightarrow>
          let (tr1, e1) =
                (if insecure_skip_verify cfg then (tr @ [SSL_CTX_set_verify cx SSL_VERIFY_NONE], None)
                 else if ca_file cfg \<noteq> []
                 then (tr @ [SSL_CTX_set_verify cx SSL_VERIFY_PEER,
                             SSL_CTX_load_verify_locations cx (ca_file cfg)],
                       if SSL_CTX_load_verify_locations_ret env = 0
                       then Some (''Failed to load CA file: '' @ GetSSLError env) else None)
                 else (tr @ [SSL_CTX_set_verify cx SSL_VERIFY_PEER, LoadSystemCACerts cx], None))
          in if e1 \<noteq> None then (tr1, e1)
             else if cert_file cfg \<noteq> [] \<and> key_file cfg \<noteq> []
             then (if SSL_CTX_use_certificate_file_ret env \<le> 0
                   then (tr1 @ [SSL_CTX_use_certificate_file cx (cert_file cfg)],
                         Some (''Failed to load certificate: '' @ GetSSLError env))
                   else if SSL_CTX_use_PrivateKey_file_ret env \<le> 0
                   then (tr1 @ [SSL_CTX_use_certificate_file cx (cert_file cfg),
                                SSL_CTX_use_PrivateKey_file cx (key_file cfg)],
                         Some (''Failed to load private key: '' @ GetSSLError env))
                   else (tr1 @ [SSL_CTX_use_certificate_file cx (cert_file cfg),
                                SSL_CTX_use_PrivateKey_file cx (key_file cfg)], None))
             else (tr1, None))"

text \<open>An error return of \<open>DialTLS\<close> after the TCP connection exists: \<open>tcp_conn->close()\<close> first.\<close>

definition DialTLS_fail :: "TCPConn \<Rightarrow> call list \<Rightarrow> string \<Rightarrow> (int \<times> nat \<times> nat) option Result \<times> call list" where
  "DialTLS_fail tcp_conn tr m = ((None, Some (New m)), snd (TCPConn_close tcp_conn tr))"

text \<open>
  The value of a successful \<open>DialTLS\<close> is the \<open>TLSConn\<close> constructed from \<open>(fd, ssl, ctx)\<close>;
  the model returns the three constructor arguments.
\<close>

definition DialTLS ::
  "tls_env \<Rightarrow> string \<Rightarrow> string \<Rightarrow> TLSConfig option \<Rightarrow> (int \<times> nat \<times> nat) option Result \<times> call list" where
  "DialTLS env network address config =
     (case DialTCP_result env of
        Inl e \<Rightarrow> ((None, Some e), [])
      | Inr tcp_conn \<Rightarrow>
          (case SSL_CTX_new_ret env of
             None \<Rightarrow> DialTLS_fail tcp_conn [SSL_CTX_new] (''SSL_CTX_new failed: '' @ GetSSLError env)
           | Some cx \<Rightarrow>
               (case DialTLS_configure env cx config [SSL_CTX_new] of
                  (tr1, Some m) \<Rightarrow> DialTLS_fail tcp_conn (tr1 @ [SSL_CTX_free cx]) m
                | (tr1, None) \<Rightarrow>
                    (case SSL_new_ret env of
                       None \<Rightarrow> DialTLS_fail tcp_conn (tr1 @ [SSL_new cx, SSL_CTX_free cx])
                                 (''SSL_new failed: '' @ GetSSLError env)
                     | Some s \<Rightarrow>
                         let hostname = (case find_char CHR '':'' address of
                                           Some colon_pos \<Rightarrow> substr address 0 colon_pos
                                         | None \<Rightarrow> address);
                             tr2 = tr1 @ [SSL_new cx, SSL_set_tlsext_host_name s hostname];
                             tr3 = (if (case config of None \<Rightarrow> True
                                        | Some cfg \<Rightarrow> \<not> insecure_skip_verify cfg)
                                    then tr2 @ [SSL_set1_host s hostname] else tr2);
                             fd = TCPConn.socket_fd tcp_conn;
                             tr4 = tr3 @ [SSL_set_fd s fd, SSL_connect s]
                         in if SSL_connect_ret env \<le> 0
                            then DialTLS_fail tcp_conn (tr4 @ [SSL_free s, SSL_CTX_free cx])
                                   (''SSL_connect failed: '' @ GetSSLError env)
                            else ((Some (fd, s, cx), None), tr4)))))"

section \<open>HTTP (http.cpp)\<close>

text \<open>
  A \<open>std::map\<close> is the list of its entries in key order, the order a range-for visits
  them; \<open>m[k] = v\<close> is \<open>map_assign\<close> and \<open>m.find(k)\<close> is \<open>map_of\<close>.
\<close>

fun map_assign :: "'k::linorder \<Rightarrow> 'v \<Rightarrow> ('k \<times> 'v) list \<Rightarrow> ('k \<times> 'v) list" where
  "map_assign k v [] = [(k, v)]"
| "map_assign k v ((k', v') # m) =
     (if k < k' then (k, v) # (k', v') # m
      else if k = k' then (k, v) # m
      else (k', v') # map_assign k v m)"

definition CRLF :: string where
  "CRLF = [CHR 0x0D, CHR 0x0A]"

subsection \<open>The client: the head of Get and Post\<close>

text \<open>
  \<open>Get\<close> and \<open>Post\<close> start with the same code: they parse the URL into \<open>is_https\<close>,
  \<open>address\<close> and \<open>path\<close>, then dial. \<open>Get_connect\<close> and \<open>Post_connect\<close> are the two
  functions up to the dial: \<open>Inl\<close> is the error returned before any dial, \<open>Inr\<close> the dial
  the function makes next, with the path of the request line. What follows the dial
  (writing the request, reading and parsing the response) is not modelled.
\<close>

datatype dial = Dial_TCP string string | Dial_TLS string string TLSConfig

definition TLSConfig_new :: TLSConfig where
  "TLSConfig_new = \<lparr>cert_file = [], key_file = [], ca_file = [], insecure_skip_verify = False\<rparr>"

definition Get_connect :: "string \<Rightarrow> Error + (dial \<times> string)" where
  "Get_connect u =
     (if starts_with u ''https://''
      then let rest = substr_from u 8;
               (address, path) = (case find_char CHR ''/'' rest of
                                    Some slash_pos \<Rightarrow> (substr rest 0 slash_pos, substr_from rest slash_pos)
                                  | None \<Rightarrow> (rest, ''/''));
               address' = (if find_char CHR '':'' address = None
                           then address @ '':'' @ to_string 443 else address)
           in Inr (Dial_TLS ''tcp'' address' (TLSConfig_new\<lparr>insecure_skip_verify := False\<rparr>), path)
      else if starts_with u ''http://''
      then let rest = substr_from u 7;
               (address, path) = (case find_char CHR ''/'' rest of
                                    Some slash_pos \<Rightarrow> (substr rest 0 slash_pos, substr_from rest slash_pos)
                                  | None \<Rightarrow> (rest, ''/''));
               address' = (if find_char CHR '':'' address = None
                           then address @ '':'' @ to_string 80 else address)
           in Inr (Dial_TCP ''tcp'' address', path)
      else Inl (New ''invalid URL: must start with http:// or https://''))"

definition Post_connect :: "string \<Rightarrow> string \<Rightarrow> string \<Rightarrow> Error + (dial \<times> string)" where
  "Post_connect u content_type body =
     (if starts_with u ''https://''
      then let rest = substr_from u 8;
               (address, path) = (case find_char CHR ''/'' rest of
                                    Some slash_pos \<Rightarrow> (substr rest 0 slash_pos, substr_from rest slash_pos)
                                  | None \<Rightarrow> (rest, ''/''));
               address' = (if find_char CHR '':'' address = None
                           then address @ '':'' @ to_string 443 else address)
           in Inr (Dial_TLS ''tcp'' address' (TLSConfig_new\<lparr>insecure_skip_verify := False\<rparr>), path)
      else if starts_with u ''http://''
      then let rest = substr_from u 7;
               (address, path) = (case find_char CHR ''/'' rest of
                                    Some slash_pos \<Rightarrow> (substr rest 0 slash_pos, substr_from rest slash_pos)
                                  | None \<Rightarrow> (rest, ''/''));
               address' = (if find_char CHR '':'' address = None
                           then address @ '':'' @ to_string 80 else address)
           in Inr (Dial_TCP ''tcp'' address', path)
      else Inl (New ''invalid URL: must start with http:// or https://''))"

subsection \<open>The server: ResponseWriterImpl and ServeMux\<close>

record Request =
  req_method :: string
  url :: string
  proto :: string
  header :: "(string \<times> string) list"
  body :: string
  remote_addr :: string

text \<open>
  The writer holds a connection and calls its virtual \<open>Write\<close>. The connection is a state
  of any type \<open>'c\<close>, and \<open>cw\<close> is its \<open>Write\<close>: given the state and the bytes, the result
  and the next state.
\<close>

record 'c ResponseWriterImpl =
  conn :: 'c
  status_code :: int
  headers_written :: bool
  headers :: "(string \<times> string) list"

definition ResponseWriterImpl_new :: "'c \<Rightarrow> 'c ResponseWriterImpl" where
  "ResponseWriterImpl_new c = \<lparr>conn = c, status_code = 200, headers_written = False, headers = []\<rparr>"

text \<open>\<open>w.Header()[key] = value\<close>, the use of the reference \<open>Header()\<close> returns.\<close>

definition Header_assign :: "'c ResponseWriterImpl \<Rightarrow> string \<Rightarrow> string \<Rightarrow> 'c ResponseWriterImpl" where
  "Header_assign w key val = w\<lparr>headers := map_assign key val (headers w)\<rparr>"

definition status_text :: "int \<Rightarrow> string" where
  "status_text statusCode =
     (if statusCode = 200 then ''OK''
      else if statusCode = 201 then ''Created''
      else if statusCode = 400 then ''Bad Request''
      else if statusCode = 404 then ''Not Found''
      else if statusCode = 500 then ''Internal Server Error''
      else ''Unknown'')"

definition response_str :: "int \<Rightarrow> (string \<times> string) list \<Rightarrow> string" where
  "response_str statusCode hs =
     ''HTTP/1.1 '' @ to_string statusCode @ '' '' @ status_text statusCode @ CRLF
       @ concat (map (\<lambda>(key, val). key @ '': '' @ val @ CRLF) hs)
       @ CRLF"

definition WriteHeader ::
  "('c \<Rightarrow> string \<Rightarrow> nat Result \<times> 'c) \<Rightarrow> 'c ResponseWriterImpl \<Rightarrow> int \<Rightarrow> 'c ResponseWriterImpl" where
  "WriteHeader cw w statusCode =
     (if headers_written w then w
      else let w1 = w\<lparr>status_code := statusCode, headers_written := True\<rparr>
           in w1\<lparr>conn := snd (cw (conn w1) (response_str statusCode (headers w1)))\<rparr>)"

definition Write ::
  "('c \<Rightarrow> string \<Rightarrow> nat Result \<times> 'c) \<Rightarrow> 'c ResponseWriterImpl \<Rightarrow> string
     \<Rightarrow> nat Result \<times> 'c ResponseWriterImpl" where
  "Write cw w data =
     (let w1 = (if \<not> headers_written w then WriteHeader cw w (status_code w) else w);
          (r, c') = cw (conn w1) data
      in (r, w1\<lparr>conn := c'\<rparr>))"

definition StatusNotFound :: int where
  "StatusNotFound = 404"

text \<open>
  A \<open>HandlerFunc\<close> changes the writer it is given. \<open>ServeHTTP_scan\<close> is the range-for of
  \<open>ServeHTTP\<close> over \<open>handlers_\<close>, with the two locals \<open>longest_match\<close> and
  \<open>matched_handler\<close>; the default-constructed \<open>matched_handler\<close> is \<open>None\<close>, and calling
  it raises \<open>std::bad_function_call\<close>.
\<close>

type_synonym 'c HandlerFunc = "'c ResponseWriterImpl \<Rightarrow> Request \<Rightarrow> 'c ResponseWriterImpl"

type_synonym 'c ServeMux = "(string \<times> 'c HandlerFunc) list"

datatype exn = bad_function_call

definition HandleFunc :: "'c ServeMux \<Rightarrow> string \<Rightarrow> 'c HandlerFunc \<Rightarrow> 'c ServeMux" where
  "HandleFunc handlers pattern handler = map_assign pattern handler handlers"

fun ServeHTTP_scan :: "string \<Rightarrow> (string \<times> 'h) list \<Rightarrow> string \<times> 'h option \<Rightarrow> string \<times> 'h option" where
  "ServeHTTP_scan u [] acc = acc"
| "ServeHTTP_scan u ((pattern, handler) # rest) (longest_match, matched_handler) =
     (if starts_with u pattern \<and> length longest_match < length pattern
      then ServeHTTP_scan u rest (pattern, Some handler)
      else ServeHTTP_scan u rest (longest_match, matched_handler))"

definition ServeHTTP ::
  "('c \<Rightarrow> string \<Rightarrow> nat Result \<times> 'c) \<Rightarrow> 'c ServeMux \<Rightarrow> 'c ResponseWriterImpl \<Rightarrow> Request
     \<Rightarrow> exn + 'c ResponseWriterImpl" where
  "ServeHTTP cw handlers w req =
     (case map_of handlers (url req) of
        Some h \<Rightarrow> Inr (h w req)
      | None \<Rightarrow>
          (case ServeHTTP_scan (url req) handlers ([], None) of
             (longest_match, matched_handler) \<Rightarrow>
               if longest_match \<noteq> []
               then (case matched_handler of
                       Some h \<Rightarrow> Inr (h w req)
                     | None \<Rightarrow> Inl bad_function_call)
               else Inr (snd (Write cw (WriteHeader cw w StatusNotFound)
                                (''404 page not found'' @ [CHR 0x0A])))))"

text \<open>
  A connection that accepts every buffer whole and keeps the buffers it was given, in
  order: the observer of what a writer sends.
\<close>

definition rec_Write :: "string list \<Rightarrow> string \<Rightarrow> nat Result \<times> string list" where
  "rec_Write c data = ((length data, None), c @ [data])"

section \<open>Sequences of calls, and the values the examples use\<close>






text \<open>
  Two handlers of the repository: the one http\_example.cpp registers for \<open>/hello\<close> (its
  logging left out), and the one of the test \<open>HTTPRequestParsing\<close>.
\<close>

definition hello_handler :: "('c \<Rightarrow> string \<Rightarrow> nat Result \<times> 'c) \<Rightarrow> 'c HandlerFunc" where
  "hello_handler cw w req =
     snd (Write cw (Header_assign w ''content-type'' ''text/plain'')
            (''Hello from gocxx HTTP server!'' @ [CHR 0x0A]))"

definition ok_handler :: "('c \<Rightarrow> string \<Rightarrow> nat Result \<times> 'c) \<Rightarrow> 'c HandlerFunc" where
  "ok_handler cw w req = snd (Write cw (WriteHeader cw w 200) ''OK'')"

text \<open>An environment in which every step of \<open>DialTLS\<close> succeeds.\<close>

definition env_ok :: tls_env where
  "env_ok = \<lparr>DialTCP_result = Inr (TCPConn_new 3 None None), SSL_CTX_new_ret = Some 1,
     SSL_CTX_load_verify_locations_ret = 1, SSL_CTX_use_certificate_file_ret = 1,
     SSL_CTX_use_PrivateKey_file_ret = 1, SSL_new_ret = Some 2, SSL_connect_ret = 1,
     GetSSLError = []\<rparr>"

text \<open>A resolver that knows \<open>localhost\<close> and the dotted address itself, and nothing else.\<close>

definition localhost_resolver :: "string \<Rightarrow> string option" where
  "localhost_resolver host =
     (if host = ''localhost'' \<or> host = ''127.0.0.1'' then Some ''127.0.0.1'' else None)"

section \<open>Reading from a TCP connection\<close>

text \<open>
  C3. On an open \<open>TCPConn\<close>, a \<open>Read\<close> whose \<open>recv\<close> returns zero bytes and no error returns the
  error \<open>ErrClosed\<close>, not a success of length zero; and whatever the state of the connection
  and the answer of \<open>recv\<close>, a \<open>Read\<close> that returns no error returns at least one byte.
\<close>

theorem TCPConn_Read_peer_closed:
  "(\<not> TCPConn.closed c \<longrightarrow> fst (TCPConn_Read strerror c tr sz 0 errno) = (0, Some ErrClosed))
   \<and> (snd (fst (TCPConn_Read strerror c tr sz ret errno)) = None
        \<longrightarrow> 0 < fst (fst (TCPConn_Read strerror c tr sz ret errno)))"
  by (simp add: TCPConn_Read_def Let_def)

theorem TCPConn_Read_peer_closed_witness:
  "\<not> TCPConn.closed (TCPConn_new 3 None None)
   \<and> fst (TCPConn_Read (\<lambda>e. []) (TCPConn_new 3 None None) [] 16 0 0) = (0, Some ErrClosed)
   \<and> fst (TCPConn_Read (\<lambda>e. []) (TCPConn_new 3 None None) [] 16 7 0) = (7, None)"
  using TCPConn_Read_peer_closed [where c = "TCPConn_new 3 None None" and strerror = "\<lambda>e. []"
      and tr = "[]" and sz = 16 and errno = 0 and ret = 7]
  by (simp add: TCPConn_new_def TCPConn_Read_def)

section \<open>Closing twice\<close>

text \<open>
  C4, as the claim states it, fails on a listener: the first \<open>Close\<close> of an open
  \<open>TCPListener\<close> returns no error and the second returns \<open>ErrClosed\<close>.
\<close>

theorem TCPListener_Close_twice_counterexample:
  "fst (TCPListener_Close (TCPListener_new 3 None) []) = None
   \<and> fst (TCPListener_Close (fst (snd (TCPListener_Close (TCPListener_new 3 None) [])))
                            (snd (snd (TCPListener_Close (TCPListener_new 3 None) []))))
       = Some ErrClosed"
  by (simp add: TCPListener_Close_def TCPListener_new_def)

lemma TCPConn_close_n:
  "((\<lambda>(c, t). TCPConn_close c t) ^^ Suc n) (c, tr) = TCPConn_close c tr"
  by (induction n) (simp_all add: TCPConn_close_def)

lemma UDPConn_close_n:
  "((\<lambda>(u, t). UDPConn_close u t) ^^ Suc n) (u, tr) = UDPConn_close u tr"
  by (induction n) (simp_all add: UDPConn_close_def)

lemma TLSConn_close_twice:
  "TLSConn_close (fst (TLSConn_close s tr)) (snd (TLSConn_close s tr)) = TLSConn_close s tr"
  by (simp add: TLSConn_close_def TCPConn_close_def split: option.splits)

lemma TLSConn_close_n:
  "((\<lambda>(s, t). TLSConn_close s t) ^^ Suc n) (s, tr) = TLSConn_close s tr"
proof (induction n)
  case 0
  show ?case by simp
next
  case (Suc n)
  have "((\<lambda>(s, t). TLSConn_close s t) ^^ Suc (Suc n)) (s, tr)
      = (\<lambda>(s, t). TLSConn_close s t) (TLSConn_close s tr)"
    using Suc by simp
  also have "\<dots> = TLSConn_close (fst (TLSConn_close s tr)) (snd (TLSConn_close s tr))"
    by (simp add: case_prod_beta)
  finally show ?case
    by (simp only: TLSConn_close_twice)
qed

lemma TLSConn_close_trace:
  "snd (TLSConn_close s tr)
     = tr @ (case TLSConn.ssl s of Some x \<Rightarrow> [SSL_shutdown x, SSL_free x] | None \<Rightarrow> [])
          @ (if TCPConn.closed s then [] else [sys_close (TCPConn.socket_fd s)])"
  by (simp add: TLSConn_close_def TCPConn_close_def split: option.splits)

lemma TCPListener_Close_n:
  "((\<lambda>(l, t). snd (TCPListener_Close l t)) ^^ Suc n) (l, tr) = snd (TCPListener_Close l tr)"
  by (induction n) (simp_all add: TCPListener_Close_def)

lemma TLSListener_Close_n:
  "((\<lambda>(l, t). snd (TLSListener_Close l t)) ^^ Suc n) (l, tr) = snd (TLSListener_Close l tr)"
  by (induction n) (simp_all add: TLSListener_Close_def TCPListener_Close_def)

text \<open>
  C4, amended. The statement is about the calls that \<open>close\<close> and \<open>Close\<close> themselves make
  on one object. For every TCP, UDP and TLS connection a second \<open>close\<close> is a no-op: it
  changes neither the connection nor the calls made (\<open>close\<close> returns nothing), any number
  of \<open>close\<close> calls equals one call, the destructor of a closed TCP or UDP connection makes
  no call, and the calls made are those of the first \<open>close\<close>: for a TLS connection the
  shutdown and the release of its session if it has one, and for every connection that is
  open one \<open>close\<close> of its descriptor. For every TCP and TLS listener the first \<open>Close\<close> of
  an open listener returns no error and closes its descriptor once; every later \<open>Close\<close>
  changes neither the listener nor the calls made, but returns the error \<open>ErrClosed\<close>; and
  the destructor of a closed TCP listener makes no call.
\<close>

theorem Close_twice:
  "TCPConn_close (fst (TCPConn_close c tr)) (snd (TCPConn_close c tr)) = TCPConn_close c tr
   \<and> ((\<lambda>(c, t). TCPConn_close c t) ^^ Suc n) (c, tr) = TCPConn_close c tr
   \<and> snd (TCPConn_close c tr) = (if TCPConn.closed c then tr else tr @ [sys_close (TCPConn.socket_fd c)])
   \<and> UDPConn_close (fst (UDPConn_close u tr)) (snd (UDPConn_close u tr)) = UDPConn_close u tr
   \<and> snd (UDPConn_close u tr) = (if UDPConn.closed u then tr else tr @ [sys_close (UDPConn.socket_fd u)])
   \<and> TLSConn_close (fst (TLSConn_close s tr)) (snd (TLSConn_close s tr)) = TLSConn_close s tr
   \<and> TCPListener_Close (fst (snd (TCPListener_Close l tr))) (snd (snd (TCPListener_Close l tr)))
       = (Some ErrClosed, snd (TCPListener_Close l tr))
   \<and> snd (snd (TCPListener_Close l tr))
       = (if TCPListener.closed l then tr else tr @ [sys_close (TCPListener.socket_fd l)])
   \<and> snd (TLSConn_close s tr)
       = tr @ (case TLSConn.ssl s of Some x \<Rightarrow> [SSL_shutdown x, SSL_free x] | None \<Rightarrow> [])
            @ (if TCPConn.closed s then [] else [sys_close (TCPConn.socket_fd s)])
   \<and> ((\<lambda>(s, t). TLSConn_close s t) ^^ Suc n) (s, tr) = TLSConn_close s tr
   \<and> ((\<lambda>(u, t). UDPConn_close u t) ^^ Suc n) (u, tr) = UDPConn_close u tr
   \<and> TCPConn_dtor (fst (TCPConn_close c tr)) (snd (TCPConn_close c tr)) = TCPConn_close c tr
   \<and> UDPConn_dtor (fst (UDPConn_close u tr)) (snd (UDPConn_close u tr)) = UDPConn_close u tr
   \<and> fst (TCPListener_Close l tr) = (if TCPListener.closed l then Some ErrClosed else None)
   \<and> ((\<lambda>(l, t). snd (TCPListener_Close l t)) ^^ Suc n) (l, tr) = snd (TCPListener_Close l tr)
   \<and> TCPListener_dtor (fst (snd (TCPListener_Close l tr))) (snd (snd (TCPListener_Close l tr)))
       = snd (TCPListener_Close l tr)
   \<and> fst (TLSListener_Close ls tr) = (if TCPListener.closed ls then Some ErrClosed else None)
   \<and> TLSListener_Close (fst (snd (TLSListener_Close ls tr))) (snd (snd (TLSListener_Close ls tr)))
       = (Some ErrClosed, snd (TLSListener_Close ls tr))
   \<and> snd (snd (TLSListener_Close ls tr))
       = (if TCPListener.closed ls then tr else tr @ [sys_close (TCPListener.socket_fd ls)])
   \<and> ((\<lambda>(l, t). snd (TLSListener_Close l t)) ^^ Suc n) (ls, tr) = snd (TLSListener_Close ls tr)"
proof -
  have 1: "TCPConn_close (fst (TCPConn_close c tr)) (snd (TCPConn_close c tr)) = TCPConn_close c tr"
    by (simp add: TCPConn_close_def)
  have 3: "snd (TCPConn_close c tr) = (if TCPConn.closed c then tr else tr @ [sys_close (TCPConn.socket_fd c)])"
    by (simp add: TCPConn_close_def)
  have 4: "UDPConn_close (fst (UDPConn_close u tr)) (snd (UDPConn_close u tr)) = UDPConn_close u tr"
    by (simp add: UDPConn_close_def)
  have 5: "snd (UDPConn_close u tr) = (if UDPConn.closed u then tr else tr @ [sys_close (UDPConn.socket_fd u)])"
    by (simp add: UDPConn_close_def)
  have 7: "TCPListener_Close (fst (snd (TCPListener_Close l tr))) (snd (snd (TCPListener_Close l tr)))
       = (Some ErrClosed, snd (TCPListener_Close l tr))"
    by (simp add: TCPListener_Close_def)
  have 8: "snd (snd (TCPListener_Close l tr))
       = (if TCPListener.closed l then tr else tr @ [sys_close (TCPListener.socket_fd l)])"
    by (simp add: TCPListener_Close_def)
  have 12: "TCPConn_dtor (fst (TCPConn_close c tr)) (snd (TCPConn_close c tr)) = TCPConn_close c tr"
    by (simp add: TCPConn_dtor_def TCPConn_close_def)
  have 13: "UDPConn_dtor (fst (UDPConn_close u tr)) (snd (UDPConn_close u tr)) = UDPConn_close u tr"
    by (simp add: UDPConn_dtor_def UDPConn_close_def)
  have 14: "fst (TCPListener_Close l tr) = (if TCPListener.closed l then Some ErrClosed else None)"
    by (simp add: TCPListener_Close_def)
  have 16: "TCPListener_dtor (fst (snd (TCPListener_Close l tr))) (snd (snd (TCPListener_Close l tr)))
       = snd (TCPListener_Close l tr)"
    by (simp add: TCPListener_dtor_def TCPListener_Close_def)
  have 17: "fst (TLSListener_Close ls tr) = (if TCPListener.closed ls then Some ErrClosed else None)"
    by (simp add: TLSListener_Close_def TCPListener_Close_def)
  have 18: "TLSListener_Close (fst (snd (TLSListener_Close ls tr))) (snd (snd (TLSListener_Close ls tr)))
       = (Some ErrClosed, snd (TLSListener_Close ls tr))"
    by (simp add: TLSListener_Close_def TCPListener_Close_def)
  have 19: "snd (snd (TLSListener_Close ls tr))
       = (if TCPListener.closed ls then tr else tr @ [sys_close (TCPListener.socket_fd ls)])"
    by (simp add: TLSListener_Close_def TCPListener_Close_def)
  show ?thesis
    by (intro conjI)
       (rule 1 TCPConn_close_n 3 4 5 TLSConn_close_twice 7 8 TLSConn_close_trace TLSConn_close_n
          UDPConn_close_n 12 13 14 TCPListener_Close_n 16 17 18 19 TLSListener_Close_n)+
qed

theorem Close_twice_witness:
  "snd (TCPConn_close (fst (TCPConn_close (TCPConn_new 3 None None) []))
                      (snd (TCPConn_close (TCPConn_new 3 None None) []))) = [sys_close 3]
   \<and> TCPListener_Close (fst (snd (TCPListener_Close (TCPListener_new 4 None) [])))
                       (snd (snd (TCPListener_Close (TCPListener_new 4 None) [])))
       = (Some ErrClosed, TCPListener_new 4 None \<lparr>TCPListener.closed := True\<rparr>, [sys_close 4])
   \<and> snd (TLSConn_close
            (fst (TLSConn_close \<lparr>TCPConn.socket_fd = 5, TCPConn.local_addr = None,
                    TCPConn.remote_addr = None, TCPConn.closed = False, TCPConn.read_deadline = 0,
                    TCPConn.write_deadline = 0, TLSConn.ssl = Some 8, TLSConn.ctx = Some 9\<rparr> []))
            (snd (TLSConn_close \<lparr>TCPConn.socket_fd = 5, TCPConn.local_addr = None,
                    TCPConn.remote_addr = None, TCPConn.closed = False, TCPConn.read_deadline = 0,
                    TCPConn.write_deadline = 0, TLSConn.ssl = Some 8, TLSConn.ctx = Some 9\<rparr> [])))
       = [SSL_shutdown 8, SSL_free 8, sys_close 5]
   \<and> fst (TLSListener_Close \<lparr>TCPListener.socket_fd = 6, TCPListener.local_addr = None,
              TCPListener.closed = False, TLSListener.ctx = Some 2\<rparr> []) = None
   \<and> TLSListener_Close
         (fst (snd (TLSListener_Close \<lparr>TCPListener.socket_fd = 6, TCPListener.local_addr = None,
              TCPListener.closed = False, TLSListener.ctx = Some 2\<rparr> [])))
         (snd (snd (TLSListener_Close \<lparr>TCPListener.socket_fd = 6, TCPListener.local_addr = None,
              TCPListener.closed = False, TLSListener.ctx = Some 2\<rparr> [])))
       = (Some ErrClosed,
          \<lparr>TCPListener.socket_fd = 6, TCPListener.local_addr = None,
              TCPListener.closed = True, TLSListener.ctx = Some 2\<rparr>, [sys_close 6])"
proof -
  note T = Close_twice [where c = "TCPConn_new 3 None None" and tr = "[]"
      and l = "TCPListener_new 4 None" and n = 0 and u = "UDPConn_new 7 None"
      and s = "\<lparr>TCPConn.socket_fd = 5, TCPConn.local_addr = None,
                    TCPConn.remote_addr = None, TCPConn.closed = False, TCPConn.read_deadline = 0,
                    TCPConn.write_deadline = 0, TLSConn.ssl = Some 8, TLSConn.ctx = Some 9\<rparr>"
      and ls = "\<lparr>TCPListener.socket_fd = 6, TCPListener.local_addr = None,
              TCPListener.closed = False, TLSListener.ctx = Some 2\<rparr>"]
  from T show ?thesis
    by (simp add: TLSConn_close_def TCPConn_close_def TLSListener_Close_def TCPListener_Close_def
        TCPConn_new_def TCPListener_new_def UDPConn_close_def UDPConn_new_def TCPConn_dtor_def
        UDPConn_dtor_def TCPListener_dtor_def)
qed

section \<open>Deadlines\<close>

text \<open>
  C5. The code records a deadline and never reads it: on a connection whose read and write
  deadlines are the epoch, a \<open>Read\<close> to which \<open>recv\<close> gives five bytes and a \<open>Write\<close> of which
  \<open>send\<close> takes five bytes both succeed; neither returns \<open>ErrTimeout\<close>.
\<close>

theorem TCPConn_deadline_not_enforced:
  "fst (TCPConn_Read (\<lambda>e. []) (snd (TCPConn_SetReadDeadline (TCPConn_new 3 None None) 0)) [] 16 5 0)
     = (5, None)
   \<and> fst (TCPConn_Write (\<lambda>e. []) (snd (TCPConn_SetDeadline (TCPConn_new 3 None None) 0)) [] ''hello'' 5 0)
     = (5, None)"
  by (simp add: TCPConn_Read_def TCPConn_Write_def TCPConn_SetReadDeadline_def
      TCPConn_SetDeadline_def TCPConn_new_def)

section \<open>Operations on a closed connection\<close>

text \<open>
  C10. On a closed \<open>TCPConn\<close>, \<open>Read\<close>, \<open>Write\<close>, \<open>CloseRead\<close> and \<open>CloseWrite\<close>, and on a closed
  \<open>UDPConn\<close>, \<open>Read\<close>, \<open>Write\<close>, \<open>ReadFrom\<close>, \<open>WriteTo\<close>, \<open>ReadFromUDP\<close> and \<open>WriteToUDP\<close>, return
  \<open>ErrClosed\<close> with zero bytes, leave the connection as it is (and the caller's address, for
  the two reads), and make no call to the system, whatever the arguments.
\<close>

theorem closed_conn_rejects:
  "(TCPConn.closed c \<longrightarrow>
       TCPConn_Read strerror c tr sz ret errno = ((0, Some ErrClosed), c, tr)
     \<and> TCPConn_Write strerror c tr buffer ret errno = ((0, Some ErrClosed), c, tr)
     \<and> TCPConn_CloseRead strerror c tr ret errno = (Some ErrClosed, c, tr)
     \<and> TCPConn_CloseWrite strerror c tr ret errno = (Some ErrClosed, c, tr))
   \<and> (UDPConn.closed u \<longrightarrow>
       UDPConn_Read strerror u tr sz ret errno = ((0, Some ErrClosed), u, tr)
     \<and> UDPConn_Write strerror u tr buffer ret errno = ((0, Some ErrClosed), u, tr)
     \<and> UDPConn_ReadFrom strerror u tr sz addr ret errno sender_ip sender_port
         = ((0, Some ErrClosed), addr, u, tr)
     \<and> UDPConn_WriteTo strerror u tr buffer dst ret errno = ((0, Some ErrClosed), u, tr)
     \<and> UDPConn_ReadFromUDP strerror u tr sz addr ret errno sender_ip sender_port
         = ((0, Some ErrClosed), addr, u, tr)
     \<and> UDPConn_WriteToUDP strerror u tr buffer a ret errno = ((0, Some ErrClosed), u, tr))"
  by (simp add: TCPConn_Read_def TCPConn_Write_def TCPConn_CloseRead_def TCPConn_CloseWrite_def
      UDPConn_Read_def UDPConn_Write_def UDPConn_ReadFrom_def UDPConn_WriteTo_def
      UDPConn_ReadFromUDP_def UDPConn_WriteToUDP_def)

theorem closed_conn_rejects_witness:
  "TCPConn.closed (fst (TCPConn_close (TCPConn_new 3 None None) []))
   \<and> TCPConn_Read (\<lambda>e. []) (fst (TCPConn_close (TCPConn_new 3 None None) [])) [sys_close 3] 16 7 0
       = ((0, Some ErrClosed), fst (TCPConn_close (TCPConn_new 3 None None) []), [sys_close 3])
   \<and> UDPConn.closed (fst (UDPConn_close (UDPConn_new 4 None) []))
   \<and> UDPConn_WriteTo (\<lambda>e. []) (fst (UDPConn_close (UDPConn_new 4 None) [])) [sys_close 4] ''ping''
         (Some (UDPAddr ''127.0.0.1'' 9091)) 4 0
       = ((0, Some ErrClosed), fst (UDPConn_close (UDPConn_new 4 None) []), [sys_close 4])"
  using closed_conn_rejects [where c = "fst (TCPConn_close (TCPConn_new 3 None None) [])"
      and u = "fst (UDPConn_close (UDPConn_new 4 None) [])" and strerror = "\<lambda>e. []"
      and tr = "[sys_close 3]" and sz = 16 and ret = 7 and errno = 0]
    closed_conn_rejects [where c = "fst (TCPConn_close (TCPConn_new 3 None None) [])"
      and u = "fst (UDPConn_close (UDPConn_new 4 None) [])" and strerror = "\<lambda>e. []"
      and tr = "[sys_close 4]" and buffer = "''ping''" and dst = "Some (UDPAddr ''127.0.0.1'' 9091)"
      and ret = 4 and errno = 0]
  by (simp add: TCPConn_close_def TCPConn_new_def UDPConn_close_def UDPConn_new_def)

section \<open>Reading and writing through a TLS session\<close>

text \<open>
  C7. On a \<open>TLSConn\<close> with a session, a \<open>Read\<close> for which \<open>SSL_read\<close> reports the end of the
  stream (zero) is a success of zero bytes, a \<open>Read\<close> for which the session would block
  (\<open>SSL_ERROR_WANT_READ\<close> or \<open>SSL_ERROR_WANT_WRITE\<close>) is a success of zero bytes too, and a
  \<open>Write\<close> for which the session would block is the error "SSL_write would block".
\<close>

theorem TLSConn_would_block_asymmetry:
  "TLSConn.ssl c = Some s \<Longrightarrow>
     fst (TLSConn_Read c tr count 0 err msg) = (0, None)
   \<and> (n < 0 \<and> (err = SSL_ERROR_WANT_READ \<or> err = SSL_ERROR_WANT_WRITE)
        \<longrightarrow> fst (TLSConn_Read c tr count n err msg) = (0, None))
   \<and> (n \<le> 0 \<and> (err = SSL_ERROR_WANT_READ \<or> err = SSL_ERROR_WANT_WRITE)
        \<longrightarrow> fst (TLSConn_Write c tr buffer n err msg) = (0, Some (New ''SSL_write would block'')))"
  by (auto simp add: TLSConn_Read_def TLSConn_Write_def Let_def)

theorem TLSConn_would_block_asymmetry_witness:
  "fst (TLSConn_Read \<lparr>TCPConn.socket_fd = 3, TCPConn.local_addr = None, TCPConn.remote_addr = None,
          TCPConn.closed = False, TCPConn.read_deadline = 0, TCPConn.write_deadline = 0,
          TLSConn.ssl = Some 1, TLSConn.ctx = Some 2\<rparr> [] 16 0 2 []) = (0, None)
   \<and> fst (TLSConn_Read \<lparr>TCPConn.socket_fd = 3, TCPConn.local_addr = None, TCPConn.remote_addr = None,
          TCPConn.closed = False, TCPConn.read_deadline = 0, TCPConn.write_deadline = 0,
          TLSConn.ssl = Some 1, TLSConn.ctx = Some 2\<rparr> [] 16 (- 1) 2 []) = (0, None)
   \<and> fst (TLSConn_Write \<lparr>TCPConn.socket_fd = 3, TCPConn.local_addr = None, TCPConn.remote_addr = None,
          TCPConn.closed = False, TCPConn.read_deadline = 0, TCPConn.write_deadline = 0,
          TLSConn.ssl = Some 1, TLSConn.ctx = Some 2\<rparr> [] ''hello'' (- 1) 2 [])
       = (0, Some (New ''SSL_write would block''))"
  using TLSConn_would_block_asymmetry [where c = "\<lparr>TCPConn.socket_fd = 3, TCPConn.local_addr = None, TCPConn.remote_addr = None,
          TCPConn.closed = False, TCPConn.read_deadline = 0, TCPConn.write_deadline = 0,
          TLSConn.ssl = Some 1, TLSConn.ctx = Some 2\<rparr>" and s = 1 and tr = "[]" and count = 16 and err = 2 and msg = "[]" and n = "- 1"
      and buffer = "''hello''"]
  by (simp add: SSL_ERROR_WANT_READ_def)

section \<open>The URL of Get and Post\<close>

lemma starts_with_prefix: "starts_with s p \<longleftrightarrow> prefix p s"
  by (induction s p rule: starts_with.induct) auto

lemma find_char_takeWhile:
  "find_char c s = (if c \<in> set s then Some (length (takeWhile (\<lambda>x. x \<noteq> c) s)) else None)"
  by (induction s) auto

lemma take_length_takeWhile: "take (length (takeWhile P s)) s = takeWhile P s"
  by (induction s) auto

lemma drop_length_takeWhile: "drop (length (takeWhile P s)) s = dropWhile P s"
  by (induction s) auto

lemma to_string_80: "to_string 80 = ''80''"
  by code_simp

lemma to_string_443: "to_string 443 = ''443''"
  by code_simp

lemma takeWhile_absent: "c \<notin> set s \<Longrightarrow> takeWhile (\<lambda>x. x \<noteq> c) s = s"
  by (induction s) auto

lemma split_at_slash:
  "(case find_char CHR ''/'' rest of
      Some slash_pos \<Rightarrow> (substr rest 0 slash_pos, substr_from rest slash_pos)
    | None \<Rightarrow> (rest, ''/''))
   = (takeWhile (\<lambda>x. x \<noteq> CHR ''/'') rest,
      if CHR ''/'' \<in> set rest then dropWhile (\<lambda>x. x \<noteq> CHR ''/'') rest else ''/'')"
  by (simp add: find_char_takeWhile substr_def substr_from_def take_length_takeWhile
      drop_length_takeWhile takeWhile_absent)

text \<open>
  C9. For \<open>Get\<close> and for \<open>Post\<close> alike: a URL that starts with neither \<open>http://\<close> nor
  \<open>https://\<close> is an error returned before any dial. Otherwise, with \<open>rest\<close> what follows the
  scheme, the address is \<open>rest\<close> up to its first \<open>/\<close>, the path is \<open>rest\<close> from its first \<open>/\<close>,
  or \<open>/\<close> when \<open>rest\<close> has none, and an address without a colon gets \<open>:80\<close> (http, dialled
  over TCP) or \<open>:443\<close> (https, dialled over TLS with verification on) appended.
\<close>

theorem Get_Post_connect:
  "(\<not> prefix ''http://'' u \<and> \<not> prefix ''https://'' u
      \<longrightarrow> Get_connect u = Inl (New ''invalid URL: must start with http:// or https://''))
   \<and> Get_connect (''http://'' @ rest) =
       Inr (Dial_TCP ''tcp''
              (if CHR '':'' \<in> set (takeWhile (\<lambda>x. x \<noteq> CHR ''/'') rest)
               then takeWhile (\<lambda>x. x \<noteq> CHR ''/'') rest
               else takeWhile (\<lambda>x. x \<noteq> CHR ''/'') rest @ '':80''),
            if CHR ''/'' \<in> set rest then dropWhile (\<lambda>x. x \<noteq> CHR ''/'') rest else ''/'')
   \<and> Get_connect (''https://'' @ rest) =
       Inr (Dial_TLS ''tcp''
              (if CHR '':'' \<in> set (takeWhile (\<lambda>x. x \<noteq> CHR ''/'') rest)
               then takeWhile (\<lambda>x. x \<noteq> CHR ''/'') rest
               else takeWhile (\<lambda>x. x \<noteq> CHR ''/'') rest @ '':443'')
              \<lparr>cert_file = [], key_file = [], ca_file = [], insecure_skip_verify = False\<rparr>,
            if CHR ''/'' \<in> set rest then dropWhile (\<lambda>x. x \<noteq> CHR ''/'') rest else ''/'')
   \<and> Post_connect u content_type b = Get_connect u"
proof -
  have other: "\<not> prefix ''http://'' u \<and> \<not> prefix ''https://'' u
      \<longrightarrow> Get_connect u = Inl (New ''invalid URL: must start with http:// or https://'')"
    by (simp add: Get_connect_def starts_with_prefix)
  have http: "Get_connect (''http://'' @ rest) =
       Inr (Dial_TCP ''tcp''
              (if CHR '':'' \<in> set (takeWhile (\<lambda>x. x \<noteq> CHR ''/'') rest)
               then takeWhile (\<lambda>x. x \<noteq> CHR ''/'') rest
               else takeWhile (\<lambda>x. x \<noteq> CHR ''/'') rest @ '':80''),
            if CHR ''/'' \<in> set rest then dropWhile (\<lambda>x. x \<noteq> CHR ''/'') rest else ''/'')"
    by (simp add: Get_connect_def substr_from_def split_at_slash to_string_80
        find_char_takeWhile [of "CHR '':''"])
  have https: "Get_connect (''https://'' @ rest) =
       Inr (Dial_TLS ''tcp''
              (if CHR '':'' \<in> set (takeWhile (\<lambda>x. x \<noteq> CHR ''/'') rest)
               then takeWhile (\<lambda>x. x \<noteq> CHR ''/'') rest
               else takeWhile (\<lambda>x. x \<noteq> CHR ''/'') rest @ '':443'')
              \<lparr>cert_file = [], key_file = [], ca_file = [], insecure_skip_verify = False\<rparr>,
            if CHR ''/'' \<in> set rest then dropWhile (\<lambda>x. x \<noteq> CHR ''/'') rest else ''/'')"
    by (simp add: Get_connect_def substr_from_def split_at_slash to_string_443 TLSConfig_new_def
        find_char_takeWhile [of "CHR '':''"])
  have post: "Post_connect u content_type b = Get_connect u"
    by (simp add: Post_connect_def Get_connect_def)
  show ?thesis
    by (rule conjI [OF other conjI [OF http conjI [OF https post]]])
qed

theorem Get_Post_connect_witness:
  "Get_connect ''ftp://example.com/x'' = Inl (New ''invalid URL: must start with http:// or https://'')
   \<and> Get_connect ''http://example.com/index.html'' = Inr (Dial_TCP ''tcp'' ''example.com:80'', ''/index.html'')
   \<and> Get_connect ''https://example.com'' =
       Inr (Dial_TLS ''tcp'' ''example.com:443''
              \<lparr>cert_file = [], key_file = [], ca_file = [], insecure_skip_verify = False\<rparr>, ''/'')
   \<and> Post_connect ''http://localhost:8080/echo'' ''text/plain'' ''hi''
       = Inr (Dial_TCP ''tcp'' ''localhost:8080'', ''/echo'')"
  using Get_Post_connect [where u = "''ftp://example.com/x''" and rest = "''example.com/index.html''"]
    Get_Post_connect [where u = "''http://localhost:8080/echo''" and rest = "''example.com''"
      and content_type = "''text/plain''" and b = "''hi''"]
    Get_Post_connect [where u = "''http://localhost:8080/echo''" and rest = "''localhost:8080/echo''"]
  by simp

section \<open>The response writer\<close>












section \<open>Routing in ServeMux\<close>

lemma prefix_same_length: "prefix p u \<Longrightarrow> prefix q u \<Longrightarrow> length p = length q \<Longrightarrow> p = q"
  by (metis prefix_length_prefix prefix_order.antisym order_refl)

lemma ServeHTTP_scan_result:
  "prefix lm u \<Longrightarrow> ServeHTTP_scan u m (lm, mh) = (lm', mh') \<Longrightarrow>
     prefix lm' u \<and> length lm \<le> length lm'
   \<and> (\<forall>p \<in> fst ` set m. prefix p u \<longrightarrow> length p \<le> length lm')
   \<and> ((lm' = lm \<and> mh' = mh) \<or> (length lm < length lm' \<and> lm' \<in> fst ` set m \<and> mh' = map_of m lm'))"
proof (induction m arbitrary: lm mh)
  case Nil
  then show ?case by simp
next
  case (Cons e m)
  obtain p h where e: "e = (p, h)" by (cases e)
  show ?case
  proof (cases "starts_with u p \<and> length lm < length p")
    case True
    then have pu: "prefix p u" and lt: "length lm < length p"
      by (simp_all add: starts_with_prefix)
    from Cons.prems(2) True have sc: "ServeHTTP_scan u m (p, Some h) = (lm', mh')"
      by (simp add: e)
    from Cons.IH [OF pu sc]
    have 1: "prefix lm' u" and 2: "length p \<le> length lm'"
      and 3: "\<forall>q \<in> fst ` set m. prefix q u \<longrightarrow> length q \<le> length lm'"
      and 4: "(lm' = p \<and> mh' = Some h) \<or> (length p < length lm' \<and> lm' \<in> fst ` set m \<and> mh' = map_of m lm')"
      by simp_all
    from 4 have 5: "lm' \<in> fst ` set (e # m) \<and> mh' = map_of (e # m) lm'"
      by (auto simp add: e)
    from 1 2 3 5 lt show ?thesis
      by (auto simp add: e)
  next
    case False
    from Cons.prems(2) False have sc: "ServeHTTP_scan u m (lm, mh) = (lm', mh')"
      by (auto simp add: e)
    from Cons.IH [OF Cons.prems(1) sc]
    have 1: "prefix lm' u" and 2: "length lm \<le> length lm'"
      and 3: "\<forall>q \<in> fst ` set m. prefix q u \<longrightarrow> length q \<le> length lm'"
      and 4: "(lm' = lm \<and> mh' = mh) \<or> (length lm < length lm' \<and> lm' \<in> fst ` set m \<and> mh' = map_of m lm')"
      by simp_all
    from False have 6: "prefix p u \<longrightarrow> length p \<le> length lm"
      by (auto simp add: starts_with_prefix)
    with 2 have 7: "prefix p u \<longrightarrow> length p \<le> length lm'" by auto
    from 6 have 8: "length lm < length lm' \<Longrightarrow> lm' \<noteq> p"
      using 1 by auto
    from 4 8 have 9: "(lm' = lm \<and> mh' = mh) \<or> (length lm < length lm' \<and> lm' \<in> fst ` set (e # m) \<and> mh' = map_of (e # m) lm')"
      by (auto simp add: e)
    from 1 2 3 7 9 show ?thesis
      by (simp add: e)
  qed
qed

lemma map_of_key: "p \<in> fst ` set m \<Longrightarrow> \<exists>h. map_of m p = Some h"
  by (induction m) auto

lemma ServeHTTP_prefix:
  assumes none: "map_of handlers (url req) = None"
    and h: "map_of handlers p = Some h"
    and ne: "p \<noteq> []"
    and pu: "prefix p (url req)"
    and longest: "\<forall>q \<in> fst ` set handlers. prefix q (url req) \<longrightarrow> length q \<le> length p"
  shows "ServeHTTP cw handlers w req = Inr (h w req)"
proof -
  obtain lm' mh' where sc: "ServeHTTP_scan (url req) handlers ([], None) = (lm', mh')"
    by (cases "ServeHTTP_scan (url req) handlers ([], None)")
  from ServeHTTP_scan_result [OF _ sc]
  have 1: "prefix lm' (url req)"
    and 3: "\<forall>q \<in> fst ` set handlers. prefix q (url req) \<longrightarrow> length q \<le> length lm'"
    and 4: "(lm' = [] \<and> mh' = None) \<or> (0 < length lm' \<and> lm' \<in> fst ` set handlers \<and> mh' = map_of handlers lm')"
    by simp_all
  from h have pin: "p \<in> fst ` set handlers"
    by (metis map_of_SomeD fst_conv image_eqI)
  with 3 pu have "length p \<le> length lm'" by blast
  with ne have lne: "lm' \<noteq> []" by auto
  with 4 have lin: "lm' \<in> fst ` set handlers" and mh: "mh' = map_of handlers lm'" by auto
  from longest lin 1 have "length lm' \<le> length p" by blast
  with \<open>length p \<le> length lm'\<close> have "length lm' = length p" by simp
  with 1 pu have "lm' = p" by (metis prefix_same_length)
  with mh h have "mh' = Some h" by simp
  with none sc lne show ?thesis
    by (simp add: ServeHTTP_def)
qed

lemma ServeHTTP_not_found:
  assumes none: "map_of handlers (url req) = None"
    and nopre: "\<forall>q \<in> fst ` set handlers. q \<noteq> [] \<longrightarrow> \<not> prefix q (url req)"
  shows "ServeHTTP cw handlers w req
     = Inr (snd (Write cw (WriteHeader cw w 404) (''404 page not found'' @ [CHR 0x0A])))"
proof -
  obtain lm' mh' where sc: "ServeHTTP_scan (url req) handlers ([], None) = (lm', mh')"
    by (cases "ServeHTTP_scan (url req) handlers ([], None)")
  from ServeHTTP_scan_result [OF _ sc]
  have 1: "prefix lm' (url req)"
    and 4: "(lm' = [] \<and> mh' = None) \<or> (0 < length lm' \<and> lm' \<in> fst ` set handlers \<and> mh' = map_of handlers lm')"
    by simp_all
  from 1 4 nopre have "lm' = []" by auto
  with none sc show ?thesis
    by (simp add: ServeHTTP_def StatusNotFound_def)
qed

lemma ServeHTTP_exact: "map_of handlers (url req) = Some h \<Longrightarrow> ServeHTTP cw handlers w req = Inr (h w req)"
  by (simp add: ServeHTTP_def)

lemma to_string_404: "to_string 404 = ''404''"
  by code_simp

lemma not_found_response:
  "snd (Write rec_Write (WriteHeader rec_Write (ResponseWriterImpl_new c) 404)
          (''404 page not found'' @ [CHR 0x0A]))
     = \<lparr>conn = c @ [''HTTP/1.1 404 Not Found'' @ CRLF @ CRLF, ''404 page not found'' @ [CHR 0x0A]],
        status_code = 404, headers_written = True, headers = []\<rparr>"
  by (simp add: Write_def WriteHeader_def rec_Write_def ResponseWriterImpl_new_def Let_def
      response_str_def status_text_def to_string_404)

text \<open>
  C1, as the claim states it, fails when the longest registered prefix of the URL is the
  empty pattern: with the one pattern \<open>""\<close> registered, a request for \<open>/z\<close> is answered
  with the 404 response and the handler is not called.
\<close>

theorem ServeHTTP_empty_pattern_counterexample:
  "map_of (HandleFunc [] [] (hello_handler rec_Write)) [] = Some (hello_handler rec_Write)
   \<and> starts_with ''/z'' []
   \<and> ServeHTTP rec_Write (HandleFunc [] [] (hello_handler rec_Write)) (ResponseWriterImpl_new [])
         \<lparr>req_method = ''GET'', url = ''/z'', proto = ''HTTP/1.1'', header = [], body = [],
          remote_addr = []\<rparr>
       = Inr \<lparr>conn = [''HTTP/1.1 404 Not Found'' @ CRLF @ CRLF, ''404 page not found'' @ [CHR 0x0A]],
              status_code = 404, headers_written = True, headers = []\<rparr>
   \<and> status_code (hello_handler rec_Write (ResponseWriterImpl_new [])
         \<lparr>req_method = ''GET'', url = ''/z'', proto = ''HTTP/1.1'', header = [], body = [],
          remote_addr = []\<rparr>) = 200"
proof -
  have a: "ServeHTTP rec_Write (HandleFunc [] [] (hello_handler rec_Write)) (ResponseWriterImpl_new [])
         \<lparr>req_method = ''GET'', url = ''/z'', proto = ''HTTP/1.1'', header = [], body = [],
          remote_addr = []\<rparr>
       = Inr \<lparr>conn = [''HTTP/1.1 404 Not Found'' @ CRLF @ CRLF, ''404 page not found'' @ [CHR 0x0A]],
              status_code = 404, headers_written = True, headers = []\<rparr>"
    using not_found_response [of "[]"]
    by (simp add: ServeHTTP_def HandleFunc_def StatusNotFound_def)
  have b: "status_code (hello_handler rec_Write (ResponseWriterImpl_new [])
         \<lparr>req_method = ''GET'', url = ''/z'', proto = ''HTTP/1.1'', header = [], body = [],
          remote_addr = []\<rparr>) = 200"
    by (simp add: hello_handler_def Write_def WriteHeader_def Header_assign_def rec_Write_def
        ResponseWriterImpl_new_def Let_def)
  have c: "map_of (HandleFunc [] [] (hello_handler rec_Write)) [] = Some (hello_handler rec_Write)"
    by (simp add: HandleFunc_def)
  from a b c show ?thesis
    by simp
qed

text \<open>
  C1, amended: only a non-empty pattern is matched as a prefix. \<open>ServeHTTP\<close> calls the handler
  registered for the pattern equal to the URL if there is one; otherwise the handler of the
  longest registered non-empty pattern that is a prefix of the URL; and if no registered
  non-empty pattern is a prefix of the URL, it writes the status 404 and the body
  \<open>404 page not found\<close> with a line feed, which on a new writer are the two buffers
  \<open>HTTP/1.1 404 Not Found\<close>, an empty line, and the body.
\<close>

theorem ServeHTTP_routing:
  "(map_of handlers (url req) = Some h \<longrightarrow> ServeHTTP cw handlers w req = Inr (h w req))
   \<and> (map_of handlers (url req) = None \<and> map_of handlers p = Some h \<and> p \<noteq> []
        \<and> prefix p (url req)
        \<and> (\<forall>q \<in> fst ` set handlers. prefix q (url req) \<longrightarrow> length q \<le> length p)
      \<longrightarrow> ServeHTTP cw handlers w req = Inr (h w req))
   \<and> (map_of handlers (url req) = None
        \<and> (\<forall>q \<in> fst ` set handlers. q \<noteq> [] \<longrightarrow> \<not> prefix q (url req))
      \<longrightarrow> ServeHTTP cw handlers w req
            = Inr (snd (Write cw (WriteHeader cw w 404) (''404 page not found'' @ [CHR 0x0A]))))
   \<and> snd (Write rec_Write (WriteHeader rec_Write (ResponseWriterImpl_new c) 404)
            (''404 page not found'' @ [CHR 0x0A]))
       = \<lparr>conn = c @ [''HTTP/1.1 404 Not Found'' @ CRLF @ CRLF, ''404 page not found'' @ [CHR 0x0A]],
          status_code = 404, headers_written = True, headers = []\<rparr>"
  using ServeHTTP_exact [of handlers req h cw w] ServeHTTP_prefix [of handlers req p h cw w]
    ServeHTTP_not_found [of handlers req cw w] not_found_response [of c]
  by blast

theorem ServeHTTP_routing_witness:
  "ServeHTTP rec_Write
       (HandleFunc (HandleFunc [] ''/a'' (ok_handler rec_Write)) ''/a/b'' (hello_handler rec_Write))
       (ResponseWriterImpl_new [])
       \<lparr>req_method = ''GET'', url = ''/a/b/c'', proto = ''HTTP/1.1'', header = [], body = [],
        remote_addr = []\<rparr>
     = Inr (hello_handler rec_Write (ResponseWriterImpl_new [])
         \<lparr>req_method = ''GET'', url = ''/a/b/c'', proto = ''HTTP/1.1'', header = [], body = [],
          remote_addr = []\<rparr>)
   \<and> ServeHTTP rec_Write
       (HandleFunc (HandleFunc [] ''/a'' (ok_handler rec_Write)) ''/a/b'' (hello_handler rec_Write))
       (ResponseWriterImpl_new [])
       \<lparr>req_method = ''GET'', url = ''/z'', proto = ''HTTP/1.1'', header = [], body = [],
        remote_addr = []\<rparr>
     = Inr \<lparr>conn = [''HTTP/1.1 404 Not Found'' @ CRLF @ CRLF, ''404 page not found'' @ [CHR 0x0A]],
            status_code = 404, headers_written = True, headers = []\<rparr>"
proof -
  have m: "HandleFunc (HandleFunc [] ''/a'' (ok_handler rec_Write)) ''/a/b'' (hello_handler rec_Write)
      = [(''/a'', ok_handler rec_Write), (''/a/b'', hello_handler rec_Write)]"
    by (simp add: HandleFunc_def)
  note R = ServeHTTP_routing [where handlers = "[(''/a'', ok_handler rec_Write), (''/a/b'', hello_handler rec_Write)]"
      and cw = rec_Write and w = "ResponseWriterImpl_new []" and c = "[]"]
  from R [where req = "\<lparr>req_method = ''GET'', url = ''/a/b/c'', proto = ''HTTP/1.1'', header = [],
        body = [], remote_addr = []\<rparr>" and p = "''/a/b''" and h = "hello_handler rec_Write"]
  have 1: "ServeHTTP rec_Write [(''/a'', ok_handler rec_Write), (''/a/b'', hello_handler rec_Write)]
       (ResponseWriterImpl_new [])
       \<lparr>req_method = ''GET'', url = ''/a/b/c'', proto = ''HTTP/1.1'', header = [], body = [],
        remote_addr = []\<rparr>
     = Inr (hello_handler rec_Write (ResponseWriterImpl_new [])
         \<lparr>req_method = ''GET'', url = ''/a/b/c'', proto = ''HTTP/1.1'', header = [], body = [],
          remote_addr = []\<rparr>)"
    by simp
  from R [where req = "\<lparr>req_method = ''GET'', url = ''/z'', proto = ''HTTP/1.1'', header = [],
        body = [], remote_addr = []\<rparr>" and p = "''/a/b''" and h = "hello_handler rec_Write"]
  have 2: "ServeHTTP rec_Write [(''/a'', ok_handler rec_Write), (''/a/b'', hello_handler rec_Write)]
       (ResponseWriterImpl_new [])
       \<lparr>req_method = ''GET'', url = ''/z'', proto = ''HTTP/1.1'', header = [], body = [],
        remote_addr = []\<rparr>
     = Inr \<lparr>conn = [''HTTP/1.1 404 Not Found'' @ CRLF @ CRLF, ''404 page not found'' @ [CHR 0x0A]],
            status_code = 404, headers_written = True, headers = []\<rparr>"
    by simp
  from 1 2 show ?thesis
    unfolding m by (rule conjI)
qed

section \<open>The client identity in DialTLS\<close>

lemma DialTLS_configure_no_identity:
  "cert_file cfg = [] \<or> key_file cfg = [] \<Longrightarrow>
     DialTLS_configure env cx (Some cfg) tr
       = DialTLS_configure env cx (Some (cfg\<lparr>cert_file := [], key_file := []\<rparr>)) tr"
  by (auto simp add: DialTLS_configure_def Let_def split: prod.splits)

lemma DialTLS_no_identity:
  "cert_file cfg = [] \<or> key_file cfg = [] \<Longrightarrow>
     DialTLS env network address (Some cfg)
       = DialTLS env network address (Some (cfg\<lparr>cert_file := [], key_file := []\<rparr>))"
  by (cases "DialTCP_result env"; cases "SSL_CTX_new_ret env")
     (simp_all add: DialTLS_def DialTLS_configure_no_identity [of cfg] Let_def
        split: prod.splits option.splits)

lemma DialTLS_fail_trace: "set tr \<subseteq> set (snd (DialTLS_fail tcp tr m))"
  by (auto simp add: DialTLS_fail_def TCPConn_close_def)

lemma DialTLS_fail_result: "fst (DialTLS_fail tcp tr m) = (None, Some (New m))"
  by (simp add: DialTLS_fail_def)

lemma DialTLS_configure_identity:
  assumes "cert_file cfg \<noteq> []" "key_file cfg \<noteq> []"
    and "insecure_skip_verify cfg \<or> ca_file cfg = [] \<or> SSL_CTX_load_verify_locations_ret env \<noteq> 0"
  shows "\<exists>tr1. DialTLS_configure env cx (Some cfg) tr =
      (if SSL_CTX_use_certificate_file_ret env \<le> 0
       then (tr1 @ [SSL_CTX_use_certificate_file cx (cert_file cfg)],
             Some (''Failed to load certificate: '' @ GetSSLError env))
       else if SSL_CTX_use_PrivateKey_file_ret env \<le> 0
       then (tr1 @ [SSL_CTX_use_certificate_file cx (cert_file cfg),
                    SSL_CTX_use_PrivateKey_file cx (key_file cfg)],
             Some (''Failed to load private key: '' @ GetSSLError env))
       else (tr1 @ [SSL_CTX_use_certificate_file cx (cert_file cfg),
                    SSL_CTX_use_PrivateKey_file cx (key_file cfg)], None))"
  using assms by (auto simp add: DialTLS_configure_def Let_def)

lemma DialTLS_trace_extends:
  "DialTCP_result env = Inr tcp \<Longrightarrow> SSL_CTX_new_ret env = Some cx \<Longrightarrow>
   DialTLS_configure env cx config [SSL_CTX_new] = (tr1, e) \<Longrightarrow>
     set tr1 \<subseteq> set (snd (DialTLS env network address config))"
  using DialTLS_fail_trace
  by (cases e; cases "SSL_new_ret env")
     (auto simp add: DialTLS_def Let_def DialTLS_fail_def TCPConn_close_def)

lemma DialTLS_configure_error:
  "DialTCP_result env = Inr tcp \<Longrightarrow> SSL_CTX_new_ret env = Some cx \<Longrightarrow>
   DialTLS_configure env cx config [SSL_CTX_new] = (tr1, Some m) \<Longrightarrow>
     fst (DialTLS env network address config) = (None, Some (New m))"
  by (simp add: DialTLS_def DialTLS_fail_def)


lemma DialTLS_no_identity_calls:
  "cert_file cfg = [] \<or> key_file cfg = [] \<Longrightarrow>
     SSL_CTX_use_certificate_file c f \<notin> set (snd (DialTLS env network address (Some cfg)))
   \<and> SSL_CTX_use_PrivateKey_file c f \<notin> set (snd (DialTLS env network address (Some cfg)))"
  by (cases "DialTCP_result env"; cases "SSL_CTX_new_ret env"; cases "SSL_new_ret env")
     (auto simp add: DialTLS_def DialTLS_configure_def DialTLS_fail_def TCPConn_close_def Let_def
        split: prod.splits option.splits if_splits)

text \<open>
  C8, as the claim states it, fails: with a certificate file and no key file, in an
  environment where every step succeeds, \<open>DialTLS\<close> returns the connection and no error.
\<close>

theorem DialTLS_cert_without_key_counterexample:
  "fst (DialTLS env_ok ''tcp'' ''example.com:443''
          (Some \<lparr>cert_file = ''client.crt'', key_file = [], ca_file = [], insecure_skip_verify = False\<rparr>))
     = (Some (3, 2, 1), None)"
  by (simp add: DialTLS_def DialTLS_configure_def env_ok_def TCPConn_new_def Let_def)

text \<open>
  C8, amended. When \<open>cert_file\<close> and \<open>key_file\<close> are both set and \<open>DialTLS\<close> gets as far as
  configuring the context, it loads the certificate file, and then the key file, into the
  context of the client, and returns an error if either load fails. When one of the two is
  empty, whether or not the other is set, it loads neither and behaves exactly as it does
  with both empty: setting one without the other is not an error.
\<close>

theorem DialTLS_client_identity:
  "(cert_file cfg \<noteq> [] \<and> key_file cfg \<noteq> [] \<and> DialTCP_result env = Inr tcp
      \<and> SSL_CTX_new_ret env = Some cx
      \<and> (insecure_skip_verify cfg \<or> ca_file cfg = [] \<or> SSL_CTX_load_verify_locations_ret env \<noteq> 0)
    \<longrightarrow> SSL_CTX_use_certificate_file cx (cert_file cfg)
          \<in> set (snd (DialTLS env network address (Some cfg)))
      \<and> (SSL_CTX_use_certificate_file_ret env \<le> 0
           \<longrightarrow> fst (DialTLS env network address (Some cfg))
                 = (None, Some (New (''Failed to load certificate: '' @ GetSSLError env))))
      \<and> (0 < SSL_CTX_use_certificate_file_ret env
           \<longrightarrow> SSL_CTX_use_PrivateKey_file cx (key_file cfg)
                 \<in> set (snd (DialTLS env network address (Some cfg)))
               \<and> (SSL_CTX_use_PrivateKey_file_ret env \<le> 0
                    \<longrightarrow> fst (DialTLS env network address (Some cfg))
                          = (None, Some (New (''Failed to load private key: '' @ GetSSLError env))))))
   \<and> (cert_file cfg = [] \<or> key_file cfg = []
    \<longrightarrow> DialTLS env network address (Some cfg)
          = DialTLS env network address (Some (cfg\<lparr>cert_file := [], key_file := []\<rparr>))
      \<and> SSL_CTX_use_certificate_file c f \<notin> set (snd (DialTLS env network address (Some cfg)))
      \<and> SSL_CTX_use_PrivateKey_file c f \<notin> set (snd (DialTLS env network address (Some cfg))))"
proof (intro conjI impI)
  assume a: "cert_file cfg \<noteq> [] \<and> key_file cfg \<noteq> [] \<and> DialTCP_result env = Inr tcp
      \<and> SSL_CTX_new_ret env = Some cx
      \<and> (insecure_skip_verify cfg \<or> ca_file cfg = [] \<or> SSL_CTX_load_verify_locations_ret env \<noteq> 0)"
  then obtain tr1 where cf: "DialTLS_configure env cx (Some cfg) [SSL_CTX_new] =
      (if SSL_CTX_use_certificate_file_ret env \<le> 0
       then (tr1 @ [SSL_CTX_use_certificate_file cx (cert_file cfg)],
             Some (''Failed to load certificate: '' @ GetSSLError env))
       else if SSL_CTX_use_PrivateKey_file_ret env \<le> 0
       then (tr1 @ [SSL_CTX_use_certificate_file cx (cert_file cfg),
                    SSL_CTX_use_PrivateKey_file cx (key_file cfg)],
             Some (''Failed to load private key: '' @ GetSSLError env))
       else (tr1 @ [SSL_CTX_use_certificate_file cx (cert_file cfg),
                    SSL_CTX_use_PrivateKey_file cx (key_file cfg)], None))"
    using DialTLS_configure_identity [of cfg env cx "[SSL_CTX_new]"] by blast
  from a have d: "DialTCP_result env = Inr tcp" and n: "SSL_CTX_new_ret env = Some cx"
    by simp_all
  obtain t e where te: "DialTLS_configure env cx (Some cfg) [SSL_CTX_new] = (t, e)"
    by (cases "DialTLS_configure env cx (Some cfg) [SSL_CTX_new]")
  from te cf have tin: "SSL_CTX_use_certificate_file cx (cert_file cfg) \<in> set t"
    by (auto split: if_splits)
  with DialTLS_trace_extends [OF d n te]
  show "SSL_CTX_use_certificate_file cx (cert_file cfg)
          \<in> set (snd (DialTLS env network address (Some cfg)))"
    by blast
  {
    assume "SSL_CTX_use_certificate_file_ret env \<le> 0"
    with cf DialTLS_configure_error [OF d n]
    show "fst (DialTLS env network address (Some cfg))
            = (None, Some (New (''Failed to load certificate: '' @ GetSSLError env)))"
      by simp
  }
  {
    assume pos: "0 < SSL_CTX_use_certificate_file_ret env"
    with te cf have "SSL_CTX_use_PrivateKey_file cx (key_file cfg) \<in> set t"
      by (auto split: if_splits)
    with DialTLS_trace_extends [OF d n te]
    show "SSL_CTX_use_PrivateKey_file cx (key_file cfg)
            \<in> set (snd (DialTLS env network address (Some cfg)))"
      by blast
    assume "SSL_CTX_use_PrivateKey_file_ret env \<le> 0"
    with pos cf DialTLS_configure_error [OF d n]
    show "fst (DialTLS env network address (Some cfg))
            = (None, Some (New (''Failed to load private key: '' @ GetSSLError env)))"
      by simp
  }
next
  assume b: "cert_file cfg = [] \<or> key_file cfg = []"
  then show "DialTLS env network address (Some cfg)
          = DialTLS env network address (Some (cfg\<lparr>cert_file := [], key_file := []\<rparr>))"
    by (rule DialTLS_no_identity)
  from b show "SSL_CTX_use_certificate_file c f \<notin> set (snd (DialTLS env network address (Some cfg)))"
    using DialTLS_no_identity_calls by blast
  from b show "SSL_CTX_use_PrivateKey_file c f \<notin> set (snd (DialTLS env network address (Some cfg)))"
    using DialTLS_no_identity_calls by blast
qed


theorem DialTLS_client_identity_witness:
  "SSL_CTX_use_certificate_file 1 ''client.crt''
       \<in> set (snd (DialTLS env_ok ''tcp'' ''example.com:443''
                     (Some \<lparr>cert_file = ''client.crt'', key_file = ''client.key'', ca_file = [],
                            insecure_skip_verify = False\<rparr>)))
   \<and> SSL_CTX_use_PrivateKey_file 1 ''client.key''
       \<in> set (snd (DialTLS env_ok ''tcp'' ''example.com:443''
                     (Some \<lparr>cert_file = ''client.crt'', key_file = ''client.key'', ca_file = [],
                            insecure_skip_verify = False\<rparr>)))
   \<and> fst (DialTLS (env_ok\<lparr>SSL_CTX_use_PrivateKey_file_ret := 0\<rparr>) ''tcp'' ''example.com:443''
                     (Some \<lparr>cert_file = ''client.crt'', key_file = ''client.key'', ca_file = [],
                            insecure_skip_verify = False\<rparr>))
       = (None, Some (New ''Failed to load private key: ''))
   \<and> DialTLS env_ok ''tcp'' ''example.com:443''
         (Some \<lparr>cert_file = ''client.crt'', key_file = [], ca_file = [], insecure_skip_verify = False\<rparr>)
       = DialTLS env_ok ''tcp'' ''example.com:443''
         (Some \<lparr>cert_file = [], key_file = [], ca_file = [], insecure_skip_verify = False\<rparr>)"
  using DialTLS_client_identity [where cfg = "\<lparr>cert_file = ''client.crt'', key_file = ''client.key'',
        ca_file = [], insecure_skip_verify = False\<rparr>" and env = env_ok
      and tcp = "TCPConn_new 3 None None" and cx = 1 and network = "''tcp''"
      and address = "''example.com:443''"]
    DialTLS_client_identity [where cfg = "\<lparr>cert_file = ''client.crt'', key_file = ''client.key'',
        ca_file = [], insecure_skip_verify = False\<rparr>"
      and env = "env_ok\<lparr>SSL_CTX_use_PrivateKey_file_ret := 0\<rparr>"
      and tcp = "TCPConn_new 3 None None" and cx = 1 and network = "''tcp''"
      and address = "''example.com:443''"]
    DialTLS_client_identity [where cfg = "\<lparr>cert_file = ''client.crt'', key_file = [],
        ca_file = [], insecure_skip_verify = False\<rparr>" and env = env_ok and network = "''tcp''"
      and address = "''example.com:443''"]
  by (simp add: env_ok_def)

section \<open>Resolving addresses\<close>

lemma digit_char_code: "d < 10 \<Longrightarrow> (of_char (char_of (48 + d :: nat)) :: nat) = 48 + d"
  by (simp add: of_char_of)

lemma isdigit_digit: "d < 10 \<Longrightarrow> isdigit (char_of (48 + d :: nat))"
  by (simp add: isdigit_def digit_char_code)

lemma to_string_nat_digits: "\<forall>c \<in> set (to_string_nat n). isdigit c"
proof (induction n rule: to_string_nat.induct)
  case (1 n)
  show ?case
  proof (cases "n < 10")
    case True
    then show ?thesis
      by (subst to_string_nat.simps) (simp add: isdigit_digit)
  next
    case False
    with 1 have "\<forall>c \<in> set (to_string_nat (n div 10)). isdigit c" by simp
    moreover have "isdigit (char_of (48 + n mod 10))" by (simp add: isdigit_digit)
    ultimately show ?thesis using False
      by (subst to_string_nat.simps) simp
  qed
qed

lemma to_string_nat_nonempty: "to_string_nat n \<noteq> []"
  by (subst to_string_nat.simps) simp

lemma digits_value_snoc: "digits_value (ds @ [c]) = digits_value ds * 10 + (of_char c - 48)"
  by (simp add: digits_value_def)

lemma digits_value_to_string_nat: "digits_value (to_string_nat n) = n"
proof (induction n rule: to_string_nat.induct)
  case (1 n)
  show ?case
  proof (cases "n < 10")
    case True
    then show ?thesis
      by (subst to_string_nat.simps) (simp add: digits_value_def digit_char_code)
  next
    case False
    with 1 have ih: "digits_value (to_string_nat (n div 10)) = n div 10" by simp
    have "digits_value (to_string_nat (n div 10) @ [char_of (48 + n mod 10)]) = n div 10 * 10 + n mod 10"
      by (simp add: digits_value_snoc ih digit_char_code)
    with False show ?thesis
      by (subst to_string_nat.simps) simp
  qed
qed

lemma isdigit_not_space: "isdigit c \<Longrightarrow> \<not> isspace c"
  by (auto simp add: isdigit_def isspace_def)

lemma isdigit_not_sign: "isdigit c \<Longrightarrow> c \<noteq> CHR ''-'' \<and> c \<noteq> CHR ''+'' \<and> c \<noteq> CHR '':''"
  by (auto simp add: isdigit_def)

lemma stoi_digits:
  assumes ds: "\<forall>c \<in> set ds. isdigit c" and ne: "ds \<noteq> []"
    and rng: "int (digits_value ds) \<le> INT_MAX"
  shows "stoi ds = Some (int (digits_value ds))"
proof -
  obtain c r where cr: "ds = c # r" using ne by (cases ds) auto
  with ds have c: "isdigit c" by simp
  have 1: "dropWhile isspace ds = ds"
    using c isdigit_not_space by (simp add: cr)
  have 2: "takeWhile isdigit ds = ds"
    using ds by (simp add: takeWhile_eq_all_conv)
  have 3: "c \<noteq> CHR ''-''" "c \<noteq> CHR ''+''"
    using c isdigit_not_sign by auto
  have 4: "\<not> int (digits_value ds) < INT_MIN"
    by (simp add: INT_MIN_def)
  show ?thesis
    using 2 3 4 rng ne unfolding stoi_def 1 by (simp add: cr Let_def)
qed

lemma stoi_to_string: "0 \<le> p \<Longrightarrow> p \<le> 65535 \<Longrightarrow> stoi (to_string p) = Some p"
  using stoi_digits [of "to_string_nat (nat p)"]
  by (simp add: to_string_def to_string_nat_digits to_string_nat_nonempty digits_value_to_string_nat
      INT_MAX_def)

lemma rfind_char_last: "c \<notin> set ds \<Longrightarrow> rfind_char c (h @ c # ds) = Some (length h)"
proof (induction h)
  case Nil
  have "rfind_char c ds = None" using Nil by (induction ds) auto
  then show ?case by simp
next
  case (Cons x h)
  then show ?case by simp
qed

lemma colon_not_in_to_string: "0 \<le> p \<Longrightarrow> CHR '':'' \<notin> set (to_string p)"
  using to_string_nat_digits [of "nat p"] isdigit_not_sign
  by (auto simp add: to_string_def)

lemma parseAddress_host_port:
  "0 \<le> p \<Longrightarrow> p \<le> 65535 \<Longrightarrow>
     parseAddress (host @ '':'' @ to_string p) = Some (if host = [] then ''0.0.0.0'' else host, p)"
  using rfind_char_last [of "CHR '':''" "to_string p" host]
  by (simp add: parseAddress_def colon_not_in_to_string substr_def substr_from_def
      stoi_to_string Let_def)

lemma parseAddress_range: "parseAddress address = Some (host, p) \<Longrightarrow> 0 \<le> p \<and> p \<le> 65535"
  by (auto simp add: parseAddress_def Let_def split: option.splits if_splits)


lemma ResolveTCPAddr_ok:
  assumes n: "network = ''tcp'' \<or> network = ''tcp4'' \<or> network = ''tcp6''"
    and pa: "parseAddress address = Some (h, p)" and g: "getaddrinfo h = Some i"
  shows "ResolveTCPAddr getaddrinfo network address = (Some (TCPAddr i p), None)"
proof -
  from n have "\<not> (network \<noteq> ''tcp'' \<and> network \<noteq> ''tcp4'' \<and> network \<noteq> ''tcp6'')"
    by blast
  then show ?thesis
    unfolding ResolveTCPAddr_def by (simp only: if_False pa g option.case prod.case)
qed

lemma ResolveTCPAddr_Some:
  assumes "ResolveTCPAddr getaddrinfo network address = (Some a, None)"
  shows "\<exists>h q i. parseAddress address = Some (h, q) \<and> a = TCPAddr i q"
proof (cases "parseAddress address")
  case None
  with assms show ?thesis
    by (simp add: ResolveTCPAddr_def split: if_splits)
next
  case (Some hq)
  obtain h q where hq: "hq = (h, q)" by (cases hq)
  show ?thesis
  proof (cases "getaddrinfo h")
    case None
    with assms Some hq show ?thesis
      by (simp add: ResolveTCPAddr_def split: if_splits)
  next
    case (Some i)
    with assms \<open>parseAddress address = Some hq\<close> hq show ?thesis
      by (auto simp add: ResolveTCPAddr_def split: if_splits)
  qed
qed

lemma ResolveUDPAddr_ok:
  assumes n: "network = ''udp'' \<or> network = ''udp4'' \<or> network = ''udp6''"
    and pa: "parseAddress address = Some (h, p)" and g: "getaddrinfo h = Some i"
  shows "ResolveUDPAddr getaddrinfo network address = (Some (UDPAddr i p), None)"
proof -
  from n have "\<not> (network \<noteq> ''udp'' \<and> network \<noteq> ''udp4'' \<and> network \<noteq> ''udp6'')"
    by blast
  then show ?thesis
    unfolding ResolveUDPAddr_def by (simp only: if_False pa g option.case prod.case)
qed

lemma ResolveUDPAddr_Some:
  assumes "ResolveUDPAddr getaddrinfo network address = (Some a, None)"
  shows "\<exists>h q i. parseAddress address = Some (h, q) \<and> a = UDPAddr i q"
proof (cases "parseAddress address")
  case None
  with assms show ?thesis
    by (simp add: ResolveUDPAddr_def split: if_splits)
next
  case (Some hq)
  obtain h q where hq: "hq = (h, q)" by (cases hq)
  show ?thesis
  proof (cases "getaddrinfo h")
    case None
    with assms Some hq show ?thesis
      by (simp add: ResolveUDPAddr_def split: if_splits)
  next
    case (Some i)
    with assms \<open>parseAddress address = Some hq\<close> hq show ?thesis
      by (auto simp add: ResolveUDPAddr_def split: if_splits)
  qed
qed

lemma ResolveTCPAddr_host_port:
  assumes "0 \<le> p" "p \<le> 65535"
    and "getaddrinfo (if host = [] then ''0.0.0.0'' else host) = Some ip_str"
    and "network = ''tcp'' \<or> network = ''tcp4'' \<or> network = ''tcp6''"
  shows "ResolveTCPAddr getaddrinfo network (host @ '':'' @ to_string p) = (Some (TCPAddr ip_str p), None)"
  by (rule ResolveTCPAddr_ok [where getaddrinfo = getaddrinfo
        and h = "if host = [] then ''0.0.0.0'' else host",
        OF assms(4) parseAddress_host_port [OF assms(1,2)] assms(3)])

lemma ResolveUDPAddr_host_port:
  assumes "0 \<le> p" "p \<le> 65535"
    and "getaddrinfo (if host = [] then ''0.0.0.0'' else host) = Some ip_str"
    and "network = ''udp'' \<or> network = ''udp4'' \<or> network = ''udp6''"
  shows "ResolveUDPAddr getaddrinfo network (host @ '':'' @ to_string p) = (Some (UDPAddr ip_str p), None)"
  by (rule ResolveUDPAddr_ok [where getaddrinfo = getaddrinfo
        and h = "if host = [] then ''0.0.0.0'' else host",
        OF assms(4) parseAddress_host_port [OF assms(1,2)] assms(3)])

lemma ResolveTCPAddr_result:
  assumes r: "ResolveTCPAddr getaddrinfo network address = (Some a, None)"
  shows "Network a = ''tcp'' \<and> 0 \<le> port a \<and> port a \<le> 65535
      \<and> String a = ip a @ '':'' @ to_string (port a)"
proof -
  from ResolveTCPAddr_Some [OF r]
  obtain hst q i where pa: "parseAddress address = Some (hst, q)" and a: "a = TCPAddr i q"
    by blast
  from parseAddress_range [OF pa] show ?thesis
    unfolding a by simp
qed

lemma ResolveUDPAddr_result:
  assumes r: "ResolveUDPAddr getaddrinfo network address = (Some a, None)"
  shows "Network a = ''udp'' \<and> 0 \<le> port a \<and> port a \<le> 65535
      \<and> String a = ip a @ '':'' @ to_string (port a)"
proof -
  from ResolveUDPAddr_Some [OF r]
  obtain hst q i where pa: "parseAddress address = Some (hst, q)" and a: "a = UDPAddr i q"
    by blast
  from parseAddress_range [OF pa] show ?thesis
    unfolding a by simp
qed

text \<open>
  C6. For every host, every port \<open>p\<close> from 0 to 65535 and every allowed network, if the
  resolver knows the host (\<open>0.0.0.0\<close> for the empty host) then \<open>ResolveTCPAddr\<close> on
  \<open>host:p\<close> returns a \<open>TCPAddr\<close> and \<open>ResolveUDPAddr\<close> a \<open>UDPAddr\<close>, with the resolved IP and
  the port \<open>p\<close>; its \<open>Network()\<close> is the family asked for, \<open>tcp\<close> for \<open>tcp\<close>, \<open>tcp4\<close> and
  \<open>tcp6\<close> and \<open>udp\<close> for \<open>udp\<close>, \<open>udp4\<close> and \<open>udp6\<close>, and its \<open>String()\<close> is the IP, a colon and
  the port in decimal. Whenever a resolution returns an address at all, the port of the
  address is within 0 and 65535.
\<close>

theorem Resolve_Addr_roundtrip:
  "(0 \<le> p \<and> p \<le> 65535 \<and> getaddrinfo (if host = [] then ''0.0.0.0'' else host) = Some ip_str
      \<and> (network = ''tcp'' \<or> network = ''tcp4'' \<or> network = ''tcp6'')
    \<longrightarrow> ResolveTCPAddr getaddrinfo network (host @ '':'' @ to_string p) = (Some (TCPAddr ip_str p), None)
      \<and> Network (TCPAddr ip_str p) = ''tcp''
      \<and> String (TCPAddr ip_str p) = ip_str @ '':'' @ to_string p)
   \<and> (0 \<le> p \<and> p \<le> 65535 \<and> getaddrinfo (if host = [] then ''0.0.0.0'' else host) = Some ip_str
      \<and> (network = ''udp'' \<or> network = ''udp4'' \<or> network = ''udp6'')
    \<longrightarrow> ResolveUDPAddr getaddrinfo network (host @ '':'' @ to_string p) = (Some (UDPAddr ip_str p), None)
      \<and> Network (UDPAddr ip_str p) = ''udp''
      \<and> String (UDPAddr ip_str p) = ip_str @ '':'' @ to_string p)
   \<and> (ResolveTCPAddr getaddrinfo network address = (Some a, None)
    \<longrightarrow> Network a = ''tcp'' \<and> 0 \<le> port a \<and> port a \<le> 65535
      \<and> String a = ip a @ '':'' @ to_string (port a))
   \<and> (ResolveUDPAddr getaddrinfo network address = (Some a, None)
    \<longrightarrow> Network a = ''udp'' \<and> 0 \<le> port a \<and> port a \<le> 65535
      \<and> String a = ip a @ '':'' @ to_string (port a))"
proof (intro conjI impI)
  assume h: "0 \<le> p \<and> p \<le> 65535 \<and> getaddrinfo (if host = [] then ''0.0.0.0'' else host) = Some ip_str
      \<and> (network = ''tcp'' \<or> network = ''tcp4'' \<or> network = ''tcp6'')"
  show "ResolveTCPAddr getaddrinfo network (host @ '':'' @ to_string p) = (Some (TCPAddr ip_str p), None)"
    by (rule ResolveTCPAddr_host_port [where getaddrinfo = getaddrinfo and host = host,
          OF conjunct1 [OF h] conjunct1 [OF conjunct2 [OF h]]
          conjunct1 [OF conjunct2 [OF conjunct2 [OF h]]] conjunct2 [OF conjunct2 [OF conjunct2 [OF h]]]])
  show "Network (TCPAddr ip_str p) = ''tcp''" by (rule Network.simps)
  show "String (TCPAddr ip_str p) = ip_str @ '':'' @ to_string p" by (rule String.simps)
next
  assume h: "0 \<le> p \<and> p \<le> 65535 \<and> getaddrinfo (if host = [] then ''0.0.0.0'' else host) = Some ip_str
      \<and> (network = ''udp'' \<or> network = ''udp4'' \<or> network = ''udp6'')"
  show "ResolveUDPAddr getaddrinfo network (host @ '':'' @ to_string p) = (Some (UDPAddr ip_str p), None)"
    by (rule ResolveUDPAddr_host_port [where getaddrinfo = getaddrinfo and host = host,
          OF conjunct1 [OF h] conjunct1 [OF conjunct2 [OF h]]
          conjunct1 [OF conjunct2 [OF conjunct2 [OF h]]] conjunct2 [OF conjunct2 [OF conjunct2 [OF h]]]])
  show "Network (UDPAddr ip_str p) = ''udp''" by (rule Network.simps)
  show "String (UDPAddr ip_str p) = ip_str @ '':'' @ to_string p" by (rule String.simps)
next
  assume r: "ResolveTCPAddr getaddrinfo network address = (Some a, None)"
  from ResolveTCPAddr_result [OF r]
  show "Network a = ''tcp''" "0 \<le> port a" "port a \<le> 65535" "String a = ip a @ '':'' @ to_string (port a)"
    by blast+
next
  assume r: "ResolveUDPAddr getaddrinfo network address = (Some a, None)"
  from ResolveUDPAddr_result [OF r]
  show "Network a = ''udp''" "0 \<le> port a" "port a \<le> 65535" "String a = ip a @ '':'' @ to_string (port a)"
    by blast+
qed

theorem Resolve_Addr_roundtrip_witness:
  "ResolveTCPAddr localhost_resolver ''tcp'' ''localhost:80'' = (Some (TCPAddr ''127.0.0.1'' 80), None)
   \<and> Network (TCPAddr ''127.0.0.1'' 80) = ''tcp''
   \<and> String (TCPAddr ''127.0.0.1'' 80) = ''127.0.0.1:80''
   \<and> ResolveUDPAddr localhost_resolver ''udp4'' ''localhost:80'' = (Some (UDPAddr ''127.0.0.1'' 80), None)
   \<and> String (UDPAddr ''127.0.0.1'' 80) = ''127.0.0.1:80''"
  using Resolve_Addr_roundtrip [where p = 80 and host = "''localhost''" and ip_str = "''127.0.0.1''"
      and getaddrinfo = localhost_resolver and network = "''tcp''" and address = "''localhost:80''"
      and a = "TCPAddr ''127.0.0.1'' 80"]
    Resolve_Addr_roundtrip [where p = 80 and host = "''localhost''" and ip_str = "''127.0.0.1''"
      and getaddrinfo = localhost_resolver and network = "''udp4''" and address = "''localhost:80''"
      and a = "UDPAddr ''127.0.0.1'' 80"]
  by (simp add: localhost_resolver_def to_string_80)

end
